theory Spec2Isabelle
  imports Main "HOL-Library.Word"
begin

section \<open>Data model of the key manager worker\<close>

text \<open>
  The worker of \<^verbatim>\<open>go/worker/keymanager\<close> is embedded as pure functions over a record of
  its fields. Calls to collaborators (the hosted enclave, consensus, the registry, the CBOR
  decoder, the signature checks) are parameters collected in a record of oracles; what
  the worker sends to them is appended to logs kept in the worker state, so that
  "the enclave was (not) called" is a statement about a list.
\<close>

type_synonym bytes = "8 word list"
type_synonym namespace = bytes      \<comment> \<open>\<^verbatim>\<open>common.Namespace\<close>, compared by value\<close>
type_synonym public_key = bytes     \<comment> \<open>\<^verbatim>\<open>signature.PublicKey\<close> and \<^verbatim>\<open>x25519.PublicKey\<close>\<close>
type_synonym peer_id = string       \<comment> \<open>\<^verbatim>\<open>core.PeerID\<close>\<close>
type_synonym epoch_time = nat       \<comment> \<open>\<^verbatim>\<open>beacon.EpochTime\<close>, a uint64: increments are taken mod \<open>2 ^ 64\<close>\<close>

text \<open>Errors are values. \<^verbatim>\<open>fmt.Errorf("...: %w", err)\<close> is \<open>ErrWrap\<close>.\<close>

datatype error =
    ErrNotAuthorized                 \<comment> \<open>\<^verbatim>\<open>fmt.Errorf("not authorized")\<close>\<close>
  | ErrMalformedRequest              \<comment> \<open>\<^verbatim>\<open>fmt.Errorf("malformed request")\<close>\<close>
  | ErrUnsupportedKind               \<comment> \<open>\<^verbatim>\<open>fmt.Errorf("unsupported RPC kind")\<close>\<close>
  | ErrMalformedResponse             \<comment> \<open>\<^verbatim>\<open>errMalformedResponse\<close>\<close>
  | ErrNoSuchEphemeralSecret         \<comment> \<open>\<^verbatim>\<open>api.ErrNoSuchEphemeralSecret\<close>\<close>
  | ErrNoSuchNode                    \<comment> \<open>\<^verbatim>\<open>registry.ErrNoSuchNode\<close>\<close>
  | ErrUnknownTEE                    \<comment> \<open>\<^verbatim>\<open>"worker/keymanager: unknown TEE hardware: %v"\<close>\<close>
  | ErrNotInCommittee                \<comment> \<open>\<^verbatim>\<open>"node not in the key manager committee"\<close>\<close>
  | ErrNoTEECapability               \<comment> \<open>\<^verbatim>\<open>"node doesn't have TEE capability"\<close>\<close>
  | ErrTEEMismatch                   \<comment> \<open>\<^verbatim>\<open>"TEE hardware mismatch"\<close>\<close>
  | ErrMsg string                    \<comment> \<open>any other error, by its text\<close>
  | ErrWrap string error

datatype kind = KindNoiseSession | KindInsecureQuery | KindLocalQuery

record frame =
  session :: bytes
  untrusted_plaintext :: string
  payload :: bytes

definition RPCMethodInit :: string where
  "RPCMethodInit = ''init''"

definition RPCMethodGetPublicKey :: string where
  "RPCMethodGetPublicKey = ''get_public_key''"

definition RPCMethodGetPublicEphemeralKey :: string where
  "RPCMethodGetPublicEphemeralKey = ''get_public_ephemeral_key''"

definition RPCMethodGenerateEphemeralSecret :: string where
  "RPCMethodGenerateEphemeralSecret = ''generate_ephemeral_secret''"

definition RPCMethodLoadEphemeralSecret :: string where
  "RPCMethodLoadEphemeralSecret = ''load_ephemeral_secret''"

definition loadEphemeralSecretMaxRetries :: nat where
  "loadEphemeralSecretMaxRetries = 5"

definition generateEphemeralSecretMaxRetries :: nat where
  "generateEphemeralSecretMaxRetries = 5"

definition ephemeralSecretCacheSize :: nat where
  "ephemeralSecretCacheSize = 20"

definition MaxInt64 :: int where
  "MaxInt64 = 2 ^ 63 - 1"

text \<open>
  \<^verbatim>\<open>node.TEEHardware\<close>: the source names \<^verbatim>\<open>TEEHardwareInvalid\<close> and
  \<^verbatim>\<open>TEEHardwareIntelSGX\<close> and sends every other value to its \<^verbatim>\<open>default\<close> branch.
\<close>

datatype tee_hardware = TEEHardwareInvalid | TEEHardwareIntelSGX | TEEHardwareOther nat

record capability_tee =
  hardware :: tee_hardware
  rak :: public_key
  rek :: "public_key option"

record runtime_status =
  version :: nat
  capabilityTEE :: "capability_tee option"

record init_response =
  is_secure :: bool
  checksum :: bytes
  policy_checksum :: bytes

record signed_init_response =
  init_response :: init_response
  init_signature :: bytes

record enclave_policy =
  may_query :: "(namespace \<times> bytes list) list"   \<comment> \<open>\<^verbatim>\<open>map[common.Namespace][]sgx.EnclaveIdentity\<close>\<close>

record signed_policy =
  enclaves :: "(bytes \<times> enclave_policy) list"      \<comment> \<open>\<^verbatim>\<open>Policy.Enclaves\<close>, by enclave identity\<close>
  policy_signatures :: "bytes list"

record status =
  status_id :: namespace
  is_initialized :: bool
  status_is_secure :: bool
  status_checksum :: bytes
  status_nodes :: "public_key list"
  status_policy :: "signed_policy option"

record signed_secret =
  secret_id :: namespace             \<comment> \<open>\<^verbatim>\<open>Secret.ID\<close>\<close>
  secret_epoch :: epoch_time         \<comment> \<open>\<^verbatim>\<open>Secret.Epoch\<close>\<close>
  secret_ciphertexts :: "(public_key \<times> bytes) list"
  secret_signature :: bytes

record init_request =
  req_checksum :: bytes
  req_policy :: "signed_policy option"   \<comment> \<open>\<^verbatim>\<open>cbor.Marshal(status.Policy)\<close>, \<open>None\<close> for the nil slice\<close>
  req_may_generate :: bool

text \<open>The arguments of a local call, before \<^verbatim>\<open>cbor.Marshal\<close>.\<close>

datatype rpc_args =
    InitArgs init_request
  | GenerateArgs epoch_time
  | LoadArgs signed_secret

text \<open>\<^verbatim>\<open>protocol.Body\<close> as the worker sends it: one of two request fields is set.\<close>

datatype body =
    RuntimeRPCCallRequest bytes kind
  | RuntimeLocalRPCCallRequest string rpc_args

text \<open>\<^verbatim>\<open>protocol.Body\<close> as the runtime answers: either field may be nil.\<close>

record response_body =
  runtimeRPCCallResponse :: "bytes option"
  runtimeLocalRPCCallResponse :: "bytes option"

text \<open>\<^verbatim>\<open>enclaverpc.Message\<close> after decoding: \<open>msg_response\<close> is nil for a non-response.\<close>

record rpc_response =
  body_success :: "bytes option"
  body_error :: "string option"

record message =
  msg_response :: "rpc_response option"

record node_runtime =
  nrt_id :: namespace
  nrt_tee :: "capability_tee option"

record node =
  node_id :: public_key
  p2p_id :: public_key
  node_runtimes :: "node_runtime list"

datatype runtime_kind = KindInvalid | KindCompute | KindKeyManager

record registry_runtime =
  rt_id :: namespace
  rt_kind :: runtime_kind
  rt_key_manager :: "namespace option"
  rt_tee_hardware :: tee_hardware

text \<open>What \<^verbatim>\<open>roleProvider\<close> was told, in order.\<close>

datatype registration =
    SetAvailable nat "capability_tee option"
  | SetAvailableWithCallback nat signed_init_response "capability_tee option"
  | SetUnavailable

record worker =
  runtimeID :: namespace                                \<comment> \<open>\<^verbatim>\<open>w.runtime.ID()\<close>\<close>
  clientRuntimes :: "namespace list"                    \<comment> \<open>the keys of \<^verbatim>\<open>w.clientRuntimes\<close>\<close>
  accessList :: "peer_id \<rightharpoonup> namespace set"
  accessListByRuntime :: "namespace \<rightharpoonup> peer_id list"
  privatePeers :: "peer_id set"
  globalStatus :: "status option"
  enclaveStatus :: "signed_init_response option"
  policy :: "signed_policy option"
  policyChecksum :: bytes
  numLoadedSecrets :: nat
  lastLoadedSecret :: epoch_time
  numGeneratedSecrets :: nat
  lastGeneratedSecret :: epoch_time
  mayGenerate :: bool
  initTicker :: bool                                    \<comment> \<open>\<^verbatim>\<open>w.initTicker != nil\<close>\<close>
  initCh :: bool                                        \<comment> \<open>\<^verbatim>\<open>w.initCh\<close> is closed\<close>
  initCallback :: bool                                  \<comment> \<open>a registration callback is waiting\<close>
  hostedRuntime :: bool                                 \<comment> \<open>\<^verbatim>\<open>w.GetHostedRuntime() != nil\<close>\<close>
  calls :: "body list"                                  \<comment> \<open>requests given to \<^verbatim>\<open>rt.Call\<close>\<close>
  txs :: "signed_secret list"                           \<comment> \<open>\<^verbatim>\<open>PublishEphemeralSecret\<close> submitted\<close>
  registrations :: "registration list"
  computeRuntimeCount :: nat
  policyUpdateCount :: nat

text \<open>
  The collaborators. \<open>rtCall\<close> is the hosted runtime: its answer may depend on the
  requests it has seen. The decoders stand for \<^verbatim>\<open>cbor.Unmarshal\<close> at each result type.
\<close>

record env =
  cborFrame :: "bytes \<Rightarrow> frame option"
  cborMessage :: "bytes \<Rightarrow> message option"
  cborInitResponse :: "bytes \<Rightarrow> signed_init_response option"
  cborSecretResponse :: "bytes \<Rightarrow> signed_secret option"
  cborEmpty :: "bytes \<Rightarrow> unit option"
  rtCall :: "body list \<Rightarrow> body \<Rightarrow> error + response_body"
  verifyInit :: "signed_init_response \<Rightarrow> public_key \<Rightarrow> error option"
  verifySecret :: "signed_secret \<Rightarrow> epoch_time \<Rightarrow> public_key set \<Rightarrow> public_key \<Rightarrow> error option"
  insecureRAK :: public_key
  insecureREK :: public_key
  publicKeyToPeerID :: "public_key \<Rightarrow> error + peer_id"
  getEpoch :: "error + epoch_time"
  getEphemeralSecret :: "namespace \<Rightarrow> epoch_time \<Rightarrow> error + signed_secret"
  nodeSigner :: public_key
  getRuntime :: "namespace \<Rightarrow> error + registry_runtime"
  getRuntimes :: "error + registry_runtime list"
  getNode :: "public_key \<Rightarrow> error + node"
  submitTx :: "signed_secret \<Rightarrow> error option"
  newNodeWatcher :: "error option"
  committeeNodes :: "namespace \<Rightarrow> error + node list"
  consensusInterval :: "error + int"
  getEpochBlock :: "epoch_time \<Rightarrow> error + int"
  randInt63n :: "int \<Rightarrow> int"
  provisionRuntime :: "error option"

section \<open>The enclave RPC adapter\<close>

text \<open>
  The context of a call: the peer \<^verbatim>\<open>rpc.PeerIDFromContext\<close> finds, whether the context
  is done (with \<^verbatim>\<open>ctx.Err()\<close>) when the call waits for \<^verbatim>\<open>w.initCh\<close>, and which case the
  \<^verbatim>\<open>select\<close> takes when both are ready: \<open>ctx_first\<close> says that it takes \<^verbatim>\<open>ctx.Done()\<close>.
\<close>

record call_ctx =
  ctx_peer :: "peer_id option"
  ctx_done :: "error option"
  ctx_first :: bool

text \<open>The access switch of \<^verbatim>\<open>CallEnclave\<close>: \<open>None\<close> when the call may go on.\<close>

definition callEnclaveAccess :: "env \<Rightarrow> worker \<Rightarrow> call_ctx \<Rightarrow> bytes \<Rightarrow> kind \<Rightarrow> error option" where
  "callEnclaveAccess e w ctx data k =
     (case k of
        KindNoiseSession \<Rightarrow>
          (case ctx_peer ctx of
             None \<Rightarrow> Some ErrNotAuthorized
           | Some peerID \<Rightarrow>
               (case cborFrame e data of
                  None \<Rightarrow> Some ErrMalformedRequest
                | Some fr \<Rightarrow>
                    if untrusted_plaintext fr = [] then None
                    else if untrusted_plaintext fr = RPCMethodGetPublicKey
                          \<or> untrusted_plaintext fr = RPCMethodGetPublicEphemeralKey then None
                    else if peerID \<notin> privatePeers w then
                      (if accessList w peerID = None then Some ErrNotAuthorized else None)
                    else None))
      | KindInsecureQuery \<Rightarrow> None
      | KindLocalQuery \<Rightarrow> Some ErrUnsupportedKind)"

text \<open>The end of \<^verbatim>\<open>CallEnclave\<close>: the request is logged and given to \<^verbatim>\<open>rt.Call\<close>.\<close>

definition dispatchCall :: "env \<Rightarrow> worker \<Rightarrow> bytes \<Rightarrow> kind \<Rightarrow> (error + bytes) \<times> worker" where
  "dispatchCall e w data k =
     (let req = RuntimeRPCCallRequest data k;
          w' = w\<lparr>calls := calls w @ [req]\<rparr>
      in case rtCall e (calls w) req of
           Inl err \<Rightarrow> (Inl err, w')
         | Inr response \<Rightarrow>
             (case runtimeRPCCallResponse response of
                None \<Rightarrow> (Inl ErrMalformedResponse, w')
              | Some resp \<Rightarrow> (Inr resp, w')))"

text \<open>
  \<^verbatim>\<open>CallEnclave\<close>: the access switch, the wait for initialization, the dispatch to the
  hosted runtime. While \<^verbatim>\<open>w.initCh\<close> is open the wait ends with the context (its error, or
  the deadline of the call's own timeout); once it is closed the call goes on, unless the
  context is done too and the \<^verbatim>\<open>select\<close> takes that case.
\<close>

definition CallEnclave :: "env \<Rightarrow> worker \<Rightarrow> call_ctx \<Rightarrow> bytes \<Rightarrow> kind \<Rightarrow> (error + bytes) \<times> worker" where
  "CallEnclave e w ctx data k =
     (case callEnclaveAccess e w ctx data k of
        Some err \<Rightarrow> (Inl err, w)
      | None \<Rightarrow>
          if \<not> initCh w then
            (Inl (case ctx_done ctx of Some err \<Rightarrow> err | None \<Rightarrow> ErrMsg ''context deadline exceeded''), w)
          else
            (case ctx_done ctx of
               Some err \<Rightarrow> if ctx_first ctx then (Inl err, w) else dispatchCall e w data k
             | None \<Rightarrow> dispatchCall e w data k))"

section \<open>The access control table\<close>

text \<open>
  One round of the clearing loop of \<^verbatim>\<open>setAccessList\<close>. A missing entry reads as the
  nil map: deleting from it does nothing and its length is 0.
\<close>

definition clearPeer :: "namespace \<Rightarrow> (peer_id \<rightharpoonup> namespace set) \<Rightarrow> peer_id \<Rightarrow> (peer_id \<rightharpoonup> namespace set)" where
  "clearPeer r al p =
     (let entry = (case al p of None \<Rightarrow> {} | Some en \<Rightarrow> en) - {r}
      in if entry = {} then al(p := None) else al(p \<mapsto> entry))"

fun clearOldNodes :: "namespace \<Rightarrow> peer_id list \<Rightarrow> (peer_id \<rightharpoonup> namespace set) \<Rightarrow> (peer_id \<rightharpoonup> namespace set)" where
  "clearOldNodes r [] al = al"
| "clearOldNodes r (p # ps) al = clearOldNodes r ps (clearPeer r al p)"

text \<open>The update loop: a node whose P2P key has no peer ID is skipped.\<close>

fun addNodes :: "env \<Rightarrow> namespace \<Rightarrow> node list \<Rightarrow> (peer_id \<rightharpoonup> namespace set) \<times> peer_id list
    \<Rightarrow> (peer_id \<rightharpoonup> namespace set) \<times> peer_id list" where
  "addNodes e r [] (al, peers) = (al, peers)"
| "addNodes e r (n # ns) (al, peers) =
     (case publicKeyToPeerID e (p2p_id n) of
        Inl err \<Rightarrow> addNodes e r ns (al, peers)
      | Inr p \<Rightarrow>
          let entry = (case al p of None \<Rightarrow> {} | Some en \<Rightarrow> en)
          in addNodes e r ns (al(p \<mapsto> insert r entry), peers @ [p]))"

definition setAccessList :: "env \<Rightarrow> namespace \<Rightarrow> node list \<Rightarrow> worker \<Rightarrow> worker" where
  "setAccessList e r nodes w =
     (let old = (case accessListByRuntime w r of None \<Rightarrow> [] | Some ps \<Rightarrow> ps);
          cleared = clearOldNodes r old (accessList w);
          (al, peers) = addNodes e r nodes (cleared, [])
      in w\<lparr>accessList := al, accessListByRuntime := (accessListByRuntime w)(r \<mapsto> peers)\<rparr>)"

text \<open>
  The words of the specification, for comparison with the code: the peer IDs derived from
  the nodes' P2P keys (invalid ones dropped), the pairs \<open>(peer, runtime)\<close> of the access
  list, and the mirror invariant between the two maps.
\<close>

definition derivedPeers :: "env \<Rightarrow> node list \<Rightarrow> peer_id list" where
  "derivedPeers e nodes =
     concat (map (\<lambda>n. case publicKeyToPeerID e (p2p_id n) of Inl err \<Rightarrow> [] | Inr p \<Rightarrow> [p]) nodes)"

definition allows :: "(peer_id \<rightharpoonup> namespace set) \<Rightarrow> peer_id \<Rightarrow> namespace \<Rightarrow> bool" where
  "allows al p r = (case al p of None \<Rightarrow> False | Some en \<Rightarrow> r \<in> en)"

definition listed :: "(namespace \<rightharpoonup> peer_id list) \<Rightarrow> namespace \<Rightarrow> peer_id \<Rightarrow> bool" where
  "listed by r p = (case by r of None \<Rightarrow> False | Some ps \<Rightarrow> p \<in> set ps)"

definition mirrored :: "worker \<Rightarrow> bool" where
  "mirrored w = (\<forall>peer. (accessList w peer \<noteq> None) = (\<exists>r. listed (accessListByRuntime w) r peer))"

text \<open>
  The states of the two maps that the worker can be in: both empty at first, changed
  by \<^verbatim>\<open>setAccessList\<close> only.
\<close>

inductive accessReachable :: "worker \<Rightarrow> bool" where
  fresh: "accessList w = Map.empty \<Longrightarrow> accessListByRuntime w = Map.empty \<Longrightarrow> accessReachable w"
| updated: "accessReachable w \<Longrightarrow> accessReachable (setAccessList e r nodes w)"
| others: "accessReachable w \<Longrightarrow> accessList w' = accessList w
    \<Longrightarrow> accessListByRuntime w' = accessListByRuntime w \<Longrightarrow> accessReachable w'"

text \<open>
  A peer's entry read as a set (the nil map is empty), and the invariant the reachable
  states satisfy: the pairs of the access list are the pairs of the per-runtime lists, and
  no entry is empty.
\<close>

definition entryOf :: "(peer_id \<rightharpoonup> namespace set) \<Rightarrow> peer_id \<Rightarrow> namespace set" where
  "entryOf al p = (case al p of None \<Rightarrow> {} | Some en \<Rightarrow> en)"

definition paired :: "worker \<Rightarrow> bool" where
  "paired w = ((\<forall>p r. allows (accessList w) p r = listed (accessListByRuntime w) r p)
             \<and> (\<forall>p. accessList w p \<noteq> Some {}))"

section \<open>Local calls and the status reconciler\<close>

text \<open>
  \<^verbatim>\<open>localCallEnclave\<close>: the request is handed to the hosted runtime, then the answer is
  taken apart; \<open>dec\<close> is the decoder of the result type the caller passes as \<^verbatim>\<open>rsp\<close>.
  The two messages that quote the hexadecimal text of the response are kept without it.
\<close>

definition localCallEnclave :: "env \<Rightarrow> string \<Rightarrow> rpc_args \<Rightarrow> (bytes \<Rightarrow> 'a option) \<Rightarrow> worker
    \<Rightarrow> (error + 'a) \<times> worker" where
  "localCallEnclave e method args dec w =
     (let req = RuntimeLocalRPCCallRequest method args;
          w' = w\<lparr>calls := calls w @ [req]\<rparr>
      in case rtCall e (calls w) req of
           Inl err \<Rightarrow> (Inl err, w')
         | Inr response \<Rightarrow>
             (case runtimeLocalRPCCallResponse response of
                None \<Rightarrow> (Inl ErrMalformedResponse, w')
              | Some resp \<Rightarrow>
                  (case cborMessage e resp of
                     None \<Rightarrow> (Inl (ErrWrap ''malformed message envelope'' (ErrMsg ''cbor'')), w')
                   | Some msg \<Rightarrow>
                       (case msg_response msg of
                          None \<Rightarrow> (Inl (ErrMsg ''message is not a response''), w')
                        | Some rsp \<Rightarrow>
                            (case body_success rsp of
                               Some succ \<Rightarrow>
                                 (case dec succ of
                                    None \<Rightarrow> (Inl (ErrWrap ''failed to extract rpc response payload'' (ErrMsg ''cbor'')), w')
                                  | Some v \<Rightarrow> (Inr v, w'))
                             | None \<Rightarrow>
                                 (case body_error rsp of
                                    Some txt \<Rightarrow> (Inl (ErrMsg (''rpc failure: '' @ [CHR 0x27] @ txt @ [CHR 0x27])), w')
                                  | None \<Rightarrow> (Inl (ErrMsg ''unknown rpc response status''), w')))))))"

text \<open>
  The signature check of \<^verbatim>\<open>updateStatus\<close>: nothing is checked when the runtime has no
  TEE capability; otherwise the key follows the hardware.
\<close>

definition validateInitSignature :: "env \<Rightarrow> runtime_status \<Rightarrow> signed_init_response \<Rightarrow> error option" where
  "validateInitSignature e rs resp =
     (case capabilityTEE rs of
        None \<Rightarrow> None
      | Some tee \<Rightarrow>
          (case (case hardware tee of
                   TEEHardwareInvalid \<Rightarrow> Inr (insecureRAK e)
                 | TEEHardwareIntelSGX \<Rightarrow> Inr (rak tee)
                 | TEEHardwareOther h \<Rightarrow> Inl ErrUnknownTEE) of
             Inl err \<Rightarrow> Some err
           | Inr signingKey \<Rightarrow>
               (case verifyInit e resp signingKey of
                  Some err \<Rightarrow>
                    Some (ErrWrap ''worker/keymanager: failed to validate initialization response signature'' err)
                | None \<Rightarrow> None)))"

text \<open>
  \<^verbatim>\<open>updateStatus\<close>. The deferred function arms the retry ticker on every failing return;
  on success the ticker is cleared, the node is registered with a callback and the enclave
  status and policy are cached.
\<close>

definition updateStatus :: "env \<Rightarrow> status \<Rightarrow> runtime_status \<Rightarrow> worker \<Rightarrow> error option \<times> worker" where
  "updateStatus e st rs w =
     (let args = \<lparr>req_checksum = status_checksum st, req_policy = status_policy st,
                  req_may_generate = mayGenerate w\<rparr>
      in case localCallEnclave e RPCMethodInit (InitArgs args) (cborInitResponse e) w of
           (Inl err, w1) \<Rightarrow>
             (Some (ErrWrap ''worker/keymanager: failed to initialize enclave'' err),
              w1\<lparr>initTicker := True\<rparr>)
         | (Inr signedInitResp, w1) \<Rightarrow>
             (case validateInitSignature e rs signedInitResp of
                Some err \<Rightarrow> (Some err, w1\<lparr>initTicker := True\<rparr>)
              | None \<Rightarrow>
                  (None,
                   w1\<lparr>initTicker := False,
                      policyUpdateCount := policyUpdateCount w1 + 1,
                      registrations := registrations w1 @
                        [SetAvailableWithCallback (version rs) signedInitResp (capabilityTEE rs)],
                      initCallback := True,
                      enclaveStatus := Some signedInitResp,
                      policy := status_policy st,
                      policyChecksum := policy_checksum (init_response signedInitResp)\<rparr>)))"

definition setStatus :: "status \<Rightarrow> worker \<Rightarrow> worker" where
  "setStatus st w = w\<lparr>globalStatus := Some st\<rparr>"

definition setLastGeneratedSecretEpoch :: "epoch_time \<Rightarrow> worker \<Rightarrow> worker" where
  "setLastGeneratedSecretEpoch ep w =
     w\<lparr>numGeneratedSecrets := numGeneratedSecrets w + 1, lastGeneratedSecret := ep\<rparr>"

definition setLastLoadedSecretEpoch :: "epoch_time \<Rightarrow> worker \<Rightarrow> worker" where
  "setLastLoadedSecretEpoch ep w =
     w\<lparr>numLoadedSecrets := numLoadedSecrets w + 1, lastLoadedSecret := ep\<rparr>"

section \<open>Client runtime watchers\<close>

text \<open>
  \<^verbatim>\<open>clientRuntimeWatcher.epochTransition\<close>: \<open>committeeNodes\<close> is what the node watcher
  holds after the executor committee members are watched and the watch is frozen, or the
  error of \<^verbatim>\<open>GetCommittees\<close>, on which the access list is left alone.
\<close>

definition crwEpochTransition :: "env \<Rightarrow> namespace \<Rightarrow> worker \<Rightarrow> worker" where
  "crwEpochTransition e rid w =
     (case committeeNodes e rid of
        Inl err \<Rightarrow> w
      | Inr nodes \<Rightarrow> setAccessList e rid nodes w)"

text \<open>The loop over \<^verbatim>\<open>status.Policy.Policy.Enclaves\<close> with its \<^verbatim>\<open>break\<close>.\<close>

fun mayQueryAny :: "(bytes \<times> enclave_policy) list \<Rightarrow> namespace \<Rightarrow> bool" where
  "mayQueryAny [] rid = False"
| "mayQueryAny ((ident, enc) # encs) rid =
     (if map_of (may_query enc) rid \<noteq> None then True else mayQueryAny encs rid)"

definition runtimeInPolicy :: "status \<Rightarrow> namespace \<Rightarrow> bool" where
  "runtimeInPolicy st rid =
     (if \<not> status_is_secure st \<and> status_policy st = None then True
      else (case status_policy st of
              Some pol \<Rightarrow> mayQueryAny (enclaves pol) rid
            | None \<Rightarrow> False))"

definition startClientRuntimeWatcher :: "env \<Rightarrow> registry_runtime \<Rightarrow> status option \<Rightarrow> worker
    \<Rightarrow> error option \<times> worker" where
  "startClientRuntimeWatcher e rt status w =
     (case status of
        None \<Rightarrow> (None, w)
      | Some st \<Rightarrow>
          if \<not> is_initialized st then (None, w)
          else if rt_kind rt \<noteq> KindCompute \<or> rt_key_manager rt = None
                  \<or> rt_key_manager rt \<noteq> Some (runtimeID w) then (None, w)
          else if rt_id rt \<in> set (clientRuntimes w) then (None, w)
          else if \<not> runtimeInPolicy st (rt_id rt) then (None, w)
          else (case newNodeWatcher e of
                  Some err \<Rightarrow> (Some err, w)
                | None \<Rightarrow>
                    let w1 = crwEpochTransition e (rt_id rt) w
                    in (None, w1\<lparr>clientRuntimes := clientRuntimes w1 @ [rt_id rt],
                                 computeRuntimeCount := computeRuntimeCount w1 + 1\<rparr>)))"

text \<open>\<^verbatim>\<open>recheckAllRuntimes\<close>: a watcher that fails to start is logged and skipped.\<close>

fun recheckLoop :: "env \<Rightarrow> registry_runtime list \<Rightarrow> status option \<Rightarrow> worker \<Rightarrow> worker" where
  "recheckLoop e [] status w = w"
| "recheckLoop e (rt # rts) status w =
     recheckLoop e rts status (snd (startClientRuntimeWatcher e rt status w))"

definition recheckAllRuntimes :: "env \<Rightarrow> status option \<Rightarrow> worker \<Rightarrow> error option \<times> worker" where
  "recheckAllRuntimes e status w =
     (case getRuntimes e of
        Inl err \<Rightarrow> (Some (ErrWrap ''failed querying runtimes'' err), w)
      | Inr rts \<Rightarrow> (None, recheckLoop e rts status w))"

text \<open>
  The words of the specification for the watcher: the conditions under which it says a
  watcher is started.
\<close>

definition listedInPolicy :: "status \<Rightarrow> namespace \<Rightarrow> bool" where
  "listedInPolicy st rid =
     (case status_policy st of
        None \<Rightarrow> False
      | Some pol \<Rightarrow> list_ex (\<lambda>(ident, enc). rid \<in> fst ` set (may_query enc)) (enclaves pol))"

definition watcherConditions :: "worker \<Rightarrow> registry_runtime \<Rightarrow> status option \<Rightarrow> bool" where
  "watcherConditions w rt status =
     (case status of
        None \<Rightarrow> False
      | Some st \<Rightarrow>
          is_initialized st \<and> rt_kind rt = KindCompute \<and> rt_key_manager rt = Some (runtimeID w)
          \<and> rt_id rt \<notin> set (clientRuntimes w)
          \<and> (listedInPolicy st (rt_id rt) \<or> (\<not> status_is_secure st \<and> status_policy st = None)))"

definition watcherStarted :: "registry_runtime \<Rightarrow> worker \<Rightarrow> worker \<Rightarrow> bool" where
  "watcherStarted rt w w' =
     (rt_id rt \<notin> set (clientRuntimes w) \<and> rt_id rt \<in> set (clientRuntimes w'))"

section \<open>The ephemeral secret coordinator\<close>

text \<open>
  \<^verbatim>\<open>generateEphemeralSecret\<close>, the loop over the committee that collects the REKs. A node
  the registry does not know, a node without this runtime and a node without a REK are
  skipped; any other registry error ends the generation.
\<close>

fun fetchREKs :: "env \<Rightarrow> status \<Rightarrow> registry_runtime \<Rightarrow> public_key list \<Rightarrow> public_key set
    \<Rightarrow> error + public_key set" where
  "fetchREKs e kmStatus kmRt [] reks = Inr reks"
| "fetchREKs e kmStatus kmRt (ident # ids) reks =
     (case getNode e ident of
        Inl err \<Rightarrow>
          if err = ErrNoSuchNode then fetchREKs e kmStatus kmRt ids reks else Inl err
      | Inr n \<Rightarrow>
          (case find (\<lambda>rt. nrt_id rt = status_id kmStatus) (node_runtimes n) of
             None \<Rightarrow> fetchREKs e kmStatus kmRt ids reks
           | Some nRt \<Rightarrow>
               (case rt_tee_hardware kmRt of
                  TEEHardwareInvalid \<Rightarrow> fetchREKs e kmStatus kmRt ids (insert (insecureREK e) reks)
                | TEEHardwareIntelSGX \<Rightarrow>
                    (case nrt_tee nRt of
                       None \<Rightarrow> fetchREKs e kmStatus kmRt ids reks
                     | Some tee \<Rightarrow>
                         (case rek tee of
                            None \<Rightarrow> fetchREKs e kmStatus kmRt ids reks
                          | Some k \<Rightarrow> fetchREKs e kmStatus kmRt ids (insert k reks)))
                | TEEHardwareOther h \<Rightarrow> fetchREKs e kmStatus kmRt ids reks)))"

text \<open>
  \<^verbatim>\<open>generateEphemeralSecret\<close>. A secret already published for the epoch ends the function
  with no error before the enclave is called; the transaction is logged when
  \<^verbatim>\<open>SignAndSubmitTx\<close> is reached.
\<close>

definition generateEphemeralSecret :: "env \<Rightarrow> namespace \<Rightarrow> epoch_time \<Rightarrow> status \<Rightarrow> runtime_status
    \<Rightarrow> worker \<Rightarrow> error option \<times> worker" where
  "generateEphemeralSecret e rid ep kmStatus rs w =
     (case getEphemeralSecret e rid ep of
        Inr published \<Rightarrow> (None, w)
      | Inl err \<Rightarrow>
          if err \<noteq> ErrNoSuchEphemeralSecret then
            (Some (ErrWrap ''failed to fetch ephemeral secret'' err), w)
          else if nodeSigner e \<notin> set (status_nodes kmStatus) then (Some ErrNotInCommittee, w)
          else
            (case localCallEnclave e RPCMethodGenerateEphemeralSecret (GenerateArgs ep)
                    (cborSecretResponse e) w of
               (Inl err, w1) \<Rightarrow> (Some (ErrWrap ''failed to generate ephemeral secret'' err), w1)
             | (Inr signedSecret, w1) \<Rightarrow>
                 (case getRuntime e (status_id kmStatus) of
                    Inl err \<Rightarrow> (Some err, w1)
                  | Inr kmRt \<Rightarrow>
                      (case (case rt_tee_hardware kmRt of
                               TEEHardwareInvalid \<Rightarrow> Inr (insecureRAK e)
                             | TEEHardwareIntelSGX \<Rightarrow>
                                 (case capabilityTEE rs of
                                    None \<Rightarrow> Inl ErrNoTEECapability
                                  | Some tee \<Rightarrow> Inr (rak tee))
                             | TEEHardwareOther h \<Rightarrow> Inl ErrTEEMismatch) of
                         Inl err \<Rightarrow> (Some err, w1)
                       | Inr signingKey \<Rightarrow>
                           (case fetchREKs e kmStatus kmRt (status_nodes kmStatus) {} of
                              Inl err \<Rightarrow> (Some err, w1)
                            | Inr reks \<Rightarrow>
                                (case verifySecret e signedSecret ep reks signingKey of
                                   Some err \<Rightarrow>
                                     (Some (ErrWrap ''failed to validate generate ephemeral secret response signature'' err), w1)
                                 | None \<Rightarrow>
                                     (submitTx e signedSecret,
                                      w1\<lparr>txs := txs w1 @ [signedSecret]\<rparr>)))))))"

definition loadEphemeralSecret :: "env \<Rightarrow> signed_secret \<Rightarrow> worker \<Rightarrow> error option \<times> worker" where
  "loadEphemeralSecret e sigSecret w =
     (case localCallEnclave e RPCMethodLoadEphemeralSecret (LoadArgs sigSecret) (cborEmpty e) w of
        (Inl err, w1) \<Rightarrow> (Some (ErrWrap ''failed to load ephemeral secret'' err), w1)
      | (Inr rsp, w1) \<Rightarrow> (None, w1))"

text \<open>
  The loop of \<^verbatim>\<open>fetchLastEphemeralSecrets\<close>:
  \<^verbatim>\<open>for i := 0; i < N && epoch > 0; i, epoch = i+1, epoch-1\<close>.
\<close>

function fetchLoop :: "env \<Rightarrow> namespace \<Rightarrow> nat \<Rightarrow> epoch_time \<Rightarrow> signed_secret list
    \<Rightarrow> error + signed_secret list" where
  "fetchLoop e rid i ep secs =
     (if i < ephemeralSecretCacheSize \<and> ep > 0 then
        (case getEphemeralSecret e rid ep of
           Inr sec \<Rightarrow> fetchLoop e rid (i + 1) (ep - 1) (secs @ [sec])
         | Inl err \<Rightarrow>
             if err = ErrNoSuchEphemeralSecret then fetchLoop e rid (i + 1) (ep - 1) secs
             else Inl (ErrWrap ''failed to fetch ephemeral secret'' err))
      else Inr secs)"
  by pat_completeness auto
termination
  by (relation "measure (\<lambda>(e, rid, i, ep, secs). ephemeralSecretCacheSize - i)") auto

declare fetchLoop.simps [simp del]

definition fetchLastEphemeralSecrets :: "env \<Rightarrow> namespace \<Rightarrow> error + signed_secret list" where
  "fetchLastEphemeralSecrets e rid =
     (case getEpoch e of
        Inl err \<Rightarrow> Inl (ErrWrap ''failed to fetch epoch'' err)
      | Inr ep \<Rightarrow> fetchLoop e rid 0 ((ep + 1) mod 2 ^ 64) [])"

text \<open>Go's \<^verbatim>\<open>int64\<close> arithmetic: results wrap, division truncates towards zero.\<close>

definition wrap64 :: "int \<Rightarrow> int" where
  "wrap64 x = (x + 2 ^ 63) mod 2 ^ 64 - 2 ^ 63"

definition truncDiv :: "int \<Rightarrow> int \<Rightarrow> int" where
  "truncDiv a b = sgn a * sgn b * (\<bar>a\<bar> div \<bar>b\<bar>)"

definition randomBlockHeight :: "env \<Rightarrow> epoch_time \<Rightarrow> int \<Rightarrow> int \<times> error option" where
  "randomBlockHeight e ep percentile =
     (case consensusInterval e of
        Inl err \<Rightarrow> (0, Some (ErrWrap ''failed to fetch consensus parameters'' err))
      | Inr params \<Rightarrow>
          (case getEpochBlock e ep of
             Inl err \<Rightarrow> (0, Some (ErrWrap ''failed to fetch epoch block height'' err))
           | Inr first \<Rightarrow>
               let interval = (if percentile < 100 then truncDiv (wrap64 (params * percentile)) 100
                               else params);
                   interval = (if interval \<le> 0 then 1 else interval);
                   height = wrap64 (first + randInt63n e interval)
               in (height, None)))"

section \<open>The worker loop\<close>

text \<open>
  The variables of \<^verbatim>\<open>Worker.worker\<close> and the worker they act on. The three signal channels
  have capacity 1: \<open>loadSecretCh\<close> and \<open>genSecretCh\<close> say whether a signal is buffered,
  \<open>genSecretDoneCh\<close> holds the buffered result. \<open>genTask\<close> is the detached generation
  that has been started and has not run yet, with the arguments it was started with;
  \<open>stopped\<close> says that the loop has returned.
\<close>

record loop =
  wk :: worker
  hrtEventCh :: bool
  currentStatus :: "status option"
  currentRuntimeStatus :: "runtime_status option"
  epoch :: epoch_time
  secrets :: "signed_secret list"
  loadSecretCh :: bool
  loadSecretRetry :: nat
  genSecretCh :: bool
  genSecretDoneCh :: "bool option"
  genSecretHeight :: int
  genSecretInProgress :: bool
  genSecretRetry :: nat
  genTask :: "(epoch_time \<times> status \<times> runtime_status) option"
  stopped :: bool

datatype host_event =
    Started nat "capability_tee option"
  | Updated nat "capability_tee option"
  | FailedToStart
  | Stopped
  | UnknownEvent

text \<open>
  What the \<^verbatim>\<open>select\<close> of the loop can receive, and the steps of the goroutines beside it:
  \<open>EvGenTask\<close> is the detached generation running to its end, \<open>EvNodeUpdate\<close> a node
  update seen by the watcher of a client runtime (with the nodes it holds then),
  \<open>EvRegistered\<close> the registration callback.
\<close>

datatype event =
    EvRuntime host_event
  | EvStatus status
  | EvInitTick
  | EvRuntimeRegistered registry_runtime
  | EvEpoch epoch_time
  | EvBlock int
  | EvBlocksClosed
  | EvSecret signed_secret
  | EvGenSecret
  | EvGenTask
  | EvGenSecretDone
  | EvLoadSecret
  | EvStop
  | EvNodeUpdate namespace bool "node list"
  | EvRegistered

definition startLoop :: "worker \<Rightarrow> loop" where
  "startLoop w =
     \<lparr>wk = w, hrtEventCh = False, currentStatus = None, currentRuntimeStatus = None,
      epoch = 0, secrets = [], loadSecretCh = False, loadSecretRetry = 0,
      genSecretCh = False, genSecretDoneCh = None, genSecretHeight = MaxInt64,
      genSecretInProgress = False, genSecretRetry = 0, genTask = None, stopped = False\<rparr>"

text \<open>The load pass: the secrets that fail are kept, in order, for the next pass.\<close>

fun loadSecrets :: "env \<Rightarrow> signed_secret list \<Rightarrow> worker \<times> signed_secret list
    \<Rightarrow> worker \<times> signed_secret list" where
  "loadSecrets e [] (w, failed) = (w, failed)"
| "loadSecrets e (sec # secs) (w, failed) =
     (case loadEphemeralSecret e sec w of
        (Some err, w1) \<Rightarrow> loadSecrets e secs (w1, failed @ [sec])
      | (None, w1) \<Rightarrow> loadSecrets e secs (setLastLoadedSecretEpoch (secret_epoch sec) w1, failed))"

definition handleLoadSecret :: "env \<Rightarrow> loop \<Rightarrow> loop" where
  "handleLoadSecret e s =
     (let (w1, failed) = loadSecrets e (secrets s) (wk s, []);
          retry = loadSecretRetry s + 1
      in s\<lparr>wk := w1, loadSecretCh := False, loadSecretRetry := retry,
            secrets := (if retry > loadEphemeralSecretMaxRetries then [] else failed)\<rparr>)"

text \<open>
  A runtime that started or was updated: the last secrets are fetched (none when the fetch
  fails) and replace the pending ones, a load is signalled, and with a status at hand the
  node is preregistered and the status forwarded.
\<close>

definition runtimeStarted :: "env \<Rightarrow> runtime_status \<Rightarrow> loop \<Rightarrow> loop" where
  "runtimeStarted e rs s =
     (let fetched = (case fetchLastEphemeralSecrets e (runtimeID (wk s)) of
                       Inl err \<Rightarrow> []
                     | Inr secs \<Rightarrow> secs);
          s1 = s\<lparr>currentRuntimeStatus := Some rs, secrets := fetched,
                 loadSecretRetry := 0, loadSecretCh := True\<rparr>
      in case currentStatus s1 of
           None \<Rightarrow> s1
         | Some st \<Rightarrow>
             let w1 = (if enclaveStatus (wk s1) = None
                       then (wk s1)\<lparr>registrations := registrations (wk s1) @
                              [SetAvailable (version rs) (capabilityTEE rs)]\<rparr>
                       else wk s1)
             in s1\<lparr>wk := snd (updateStatus e st rs w1)\<rparr>)"

definition handleRuntimeEvent :: "env \<Rightarrow> host_event \<Rightarrow> loop \<Rightarrow> loop" where
  "handleRuntimeEvent e ev s =
     (case ev of
        Started v tee \<Rightarrow> runtimeStarted e \<lparr>version = v, capabilityTEE = tee\<rparr> s
      | Updated v tee \<Rightarrow> runtimeStarted e \<lparr>version = v, capabilityTEE = tee\<rparr> s
      | FailedToStart \<Rightarrow>
          s\<lparr>currentRuntimeStatus := None,
            wk := (wk s)\<lparr>registrations := registrations (wk s) @ [SetUnavailable]\<rparr>\<rparr>
      | Stopped \<Rightarrow>
          s\<lparr>currentRuntimeStatus := None,
            wk := (wk s)\<lparr>registrations := registrations (wk s) @ [SetUnavailable]\<rparr>\<rparr>
      | UnknownEvent \<Rightarrow> s)"

text \<open>
  The status forwarded to the enclave, then the runtimes rechecked; an error of either is
  logged and the loop goes on.
\<close>

definition forwardStatus :: "env \<Rightarrow> status \<Rightarrow> runtime_status \<Rightarrow> loop \<Rightarrow> loop" where
  "forwardStatus e st rs s =
     (case updateStatus e st rs (wk s) of
        (Some err, w1) \<Rightarrow> s\<lparr>wk := w1\<rparr>
      | (None, w1) \<Rightarrow> s\<lparr>wk := snd (recheckAllRuntimes e (Some st) w1)\<rparr>)"

text \<open>
  A status of this runtime: on the first one the hosted runtime is provisioned and its
  events are subscribed to; a failure there ends the loop.
\<close>

definition handleStatus :: "env \<Rightarrow> status \<Rightarrow> loop \<Rightarrow> loop" where
  "handleStatus e st s =
     (if status_id st \<noteq> runtimeID (wk s) then s
      else
        let s1 = s\<lparr>wk := setStatus st (wk s)\<rparr>
        in if \<not> hostedRuntime (wk s1) \<and> provisionRuntime e \<noteq> None then s1\<lparr>stopped := True\<rparr>
           else
             let s2 = (if \<not> hostedRuntime (wk s1)
                       then s1\<lparr>wk := (wk s1)\<lparr>hostedRuntime := True\<rparr>, hrtEventCh := True\<rparr>
                       else s1);
                 s3 = s2\<lparr>currentStatus := Some st\<rparr>
             in case currentRuntimeStatus s3 of
                  None \<Rightarrow> s3
                | Some rs \<Rightarrow> forwardStatus e st rs s3)"

definition handleInitTick :: "env \<Rightarrow> loop \<Rightarrow> loop" where
  "handleInitTick e s =
     (case (currentStatus s, currentRuntimeStatus s) of
        (Some st, Some rs) \<Rightarrow> forwardStatus e st rs s
      | _ \<Rightarrow> s)"

definition handleRuntimeRegistered :: "env \<Rightarrow> registry_runtime \<Rightarrow> loop \<Rightarrow> loop" where
  "handleRuntimeRegistered e rt s =
     s\<lparr>wk := snd (startClientRuntimeWatcher e rt (currentStatus s) (wk s))\<rparr>"

text \<open>The watchers take the epoch transition one after the other.\<close>

fun watchersEpochTransition :: "env \<Rightarrow> namespace list \<Rightarrow> worker \<Rightarrow> worker" where
  "watchersEpochTransition e [] w = w"
| "watchersEpochTransition e (rid # rids) w =
     watchersEpochTransition e rids (crwEpochTransition e rid w)"

definition handleEpoch :: "env \<Rightarrow> epoch_time \<Rightarrow> loop \<Rightarrow> loop" where
  "handleEpoch e ep s =
     s\<lparr>epoch := ep,
       wk := watchersEpochTransition e (clientRuntimes (wk s)) (wk s),
       genSecretHeight := fst (randomBlockHeight e ep 90),
       genSecretRetry := 0\<rparr>"

definition handleBlock :: "int \<Rightarrow> loop \<Rightarrow> loop" where
  "handleBlock height s =
     (let s1 = (if height \<ge> genSecretHeight s then s\<lparr>genSecretCh := True\<rparr> else s)
      in if length (secrets s1) > 0 then s1\<lparr>loadSecretCh := True\<rparr> else s1)"

definition handleSecret :: "signed_secret \<Rightarrow> loop \<Rightarrow> loop" where
  "handleSecret sec s =
     (if secret_id sec \<noteq> runtimeID (wk s) then s
      else
        let s1 = (if secret_epoch sec = (epoch s + 1) mod 2 ^ 64
                  then s\<lparr>genSecretHeight := MaxInt64\<rparr> else s)
        in s1\<lparr>secrets := secrets s1 @ [sec], loadSecretRetry := 0, loadSecretCh := True\<rparr>)"

definition handleGenSecret :: "loop \<Rightarrow> loop" where
  "handleGenSecret s =
     (let s0 = s\<lparr>genSecretCh := False\<rparr>
      in case (currentStatus s0, currentRuntimeStatus s0) of
           (Some st, Some rs) \<Rightarrow>
             if genSecretInProgress s0 \<or> genSecretHeight s0 = MaxInt64 then s0
             else
               let retry = genSecretRetry s0 + 1;
                   s1 = s0\<lparr>genSecretRetry := retry\<rparr>;
                   s2 = (if retry > generateEphemeralSecretMaxRetries
                         then s1\<lparr>genSecretHeight := MaxInt64\<rparr> else s1)
               in s2\<lparr>genSecretInProgress := True,
                     genTask := Some ((epoch s2 + 1) mod 2 ^ 64, st, rs)\<rparr>
         | _ \<Rightarrow> s0)"

text \<open>
  The detached generation: its result is sent on \<open>genSecretDoneCh\<close>, and after a success
  the epoch is recorded as the last generated one.
\<close>

definition runGenTask :: "env \<Rightarrow> loop \<Rightarrow> loop" where
  "runGenTask e s =
     (case genTask s of
        None \<Rightarrow> s
      | Some (ep, kmStatus, rtStatus) \<Rightarrow>
          (case generateEphemeralSecret e (runtimeID (wk s)) ep kmStatus rtStatus (wk s) of
             (Some err, w1) \<Rightarrow> s\<lparr>wk := w1, genTask := None, genSecretDoneCh := Some False\<rparr>
           | (None, w1) \<Rightarrow>
               s\<lparr>wk := setLastGeneratedSecretEpoch ep w1, genTask := None,
                 genSecretDoneCh := Some True\<rparr>))"

definition handleGenSecretDone :: "bool \<Rightarrow> loop \<Rightarrow> loop" where
  "handleGenSecretDone ok s =
     (let s1 = (if ok \<and> genSecretRetry s > 0 then s\<lparr>genSecretHeight := MaxInt64\<rparr> else s)
      in s1\<lparr>genSecretInProgress := False, genSecretDoneCh := None\<rparr>)"

text \<open>A stop waits for the generation in progress, then the loop returns.\<close>

definition handleStop :: "env \<Rightarrow> loop \<Rightarrow> loop" where
  "handleStop e s =
     (let s1 = (if genSecretInProgress s then (runGenTask e s)\<lparr>genSecretDoneCh := None\<rparr> else s)
      in s1\<lparr>stopped := True\<rparr>)"

definition handleNodeUpdate :: "env \<Rightarrow> namespace \<Rightarrow> bool \<Rightarrow> node list \<Rightarrow> loop \<Rightarrow> loop" where
  "handleNodeUpdate e rid reset nodes s =
     (if rid \<notin> set (clientRuntimes (wk s)) \<or> reset then s
      else s\<lparr>wk := setAccessList e rid nodes (wk s)\<rparr>)"

definition handleRegistered :: "loop \<Rightarrow> loop" where
  "handleRegistered s =
     (if initCallback (wk s) then s\<lparr>wk := (wk s)\<lparr>initCh := True\<rparr>\<rparr> else s)"

text \<open>
  One step. A receive from a channel that holds nothing, or that is nil, does not happen:
  the state stays as it is. After the loop has returned only the goroutines beside it move.
\<close>

definition step :: "env \<Rightarrow> event \<Rightarrow> loop \<Rightarrow> loop" where
  "step e ev s =
     (case ev of
        EvGenTask \<Rightarrow> runGenTask e s
      | EvNodeUpdate rid reset nodes \<Rightarrow> handleNodeUpdate e rid reset nodes s
      | EvRegistered \<Rightarrow> handleRegistered s
      | _ \<Rightarrow>
          if stopped s then s
          else (case ev of
                  EvRuntime hev \<Rightarrow> if hrtEventCh s then handleRuntimeEvent e hev s else s
                | EvStatus st \<Rightarrow> handleStatus e st s
                | EvInitTick \<Rightarrow> if initTicker (wk s) then handleInitTick e s else s
                | EvRuntimeRegistered rt \<Rightarrow> handleRuntimeRegistered e rt s
                | EvEpoch ep \<Rightarrow> handleEpoch e ep s
                | EvBlock height \<Rightarrow> handleBlock height s
                | EvBlocksClosed \<Rightarrow> s\<lparr>stopped := True\<rparr>
                | EvSecret sec \<Rightarrow> handleSecret sec s
                | EvGenSecret \<Rightarrow> if genSecretCh s then handleGenSecret s else s
                | EvGenSecretDone \<Rightarrow>
                    (case genSecretDoneCh s of
                       None \<Rightarrow> s
                     | Some ok \<Rightarrow> handleGenSecretDone ok s)
                | EvLoadSecret \<Rightarrow> if loadSecretCh s then handleLoadSecret e s else s
                | EvStop \<Rightarrow> handleStop e s
                | _ \<Rightarrow> s))"

text \<open>A run: each event comes with the collaborators as they are when it is handled.\<close>

fun run :: "(env \<times> event) list \<Rightarrow> loop \<Rightarrow> loop" where
  "run [] s = s"
| "run ((e, ev) # evs) s = run evs (step e ev s)"

section \<open>Notions of the claims about the secrets\<close>

text \<open>
  The request of a load call and the load calls among the requests the hosted runtime has
  seen; what one query of the warm-up fetch adds; consensus answering every query with a
  secret or with "no such secret".
\<close>

definition loadRequest :: "signed_secret \<Rightarrow> body" where
  "loadRequest sec = RuntimeLocalRPCCallRequest RPCMethodLoadEphemeralSecret (LoadArgs sec)"



definition fetchedAt :: "env \<Rightarrow> namespace \<Rightarrow> epoch_time \<Rightarrow> signed_secret list" where
  "fetchedAt e rid ep = (case getEphemeralSecret e rid ep of Inr sec \<Rightarrow> [sec] | Inl err \<Rightarrow> [])"

definition queriesAnswered :: "env \<Rightarrow> namespace \<Rightarrow> bool" where
  "queriesAnswered e rid =
     (\<forall>ep err. getEphemeralSecret e rid ep = Inl err \<longrightarrow> err = ErrNoSuchEphemeralSecret)"







section \<open>Notions of the claims about the generation\<close>

text \<open>Runs in which no epoch transition is handled.\<close>

fun isEpochEvent :: "event \<Rightarrow> bool" where
  "isEpochEvent (EvEpoch ep) = True"
| "isEpochEvent ev = False"

definition noEpoch :: "(env \<times> event) list \<Rightarrow> bool" where
  "noEpoch evs = list_all (\<lambda>(e, ev). \<not> isEpochEvent ev) evs"

text \<open>
  The state in which a receive from \<open>genSecretCh\<close> starts a generation attempt: the loop
  runs, a signal is buffered, both statuses are known, no attempt is in progress and the
  height is armed.
\<close>

definition attemptStarts :: "loop \<Rightarrow> bool" where
  "attemptStarts s =
     (\<not> stopped s \<and> genSecretCh s \<and> currentStatus s \<noteq> None \<and> currentRuntimeStatus s \<noteq> None
      \<and> \<not> genSecretInProgress s \<and> genSecretHeight s \<noteq> MaxInt64)"

section \<open>Scenarios\<close>

text \<open>
  Modelled from the spec: the constructor of the worker is not part of the sources read
  here; a new worker has empty access lists, no cached status and nothing logged.
\<close>

definition newWorker :: "namespace \<Rightarrow> peer_id set \<Rightarrow> bool \<Rightarrow> worker" where
  "newWorker rid private gen =
     \<lparr>runtimeID = rid, clientRuntimes = [], accessList = Map.empty,
      accessListByRuntime = Map.empty, privatePeers = private, globalStatus = None,
      enclaveStatus = None, policy = None, policyChecksum = [], numLoadedSecrets = 0,
      lastLoadedSecret = 0, numGeneratedSecrets = 0, lastGeneratedSecret = 0,
      mayGenerate = gen, initTicker = False, initCh = False, initCallback = False,
      hostedRuntime = False, calls = [], txs = [], registrations = [],
      computeRuntimeCount = 0, policyUpdateCount = 0\<rparr>"

text \<open>
  Collaborators for the scenarios: every decoder fails, every query finds nothing, the hosted
  runtime answers an empty body, signatures verify. Scenarios override what they need.
\<close>

definition quietEnv :: env where
  "quietEnv =
     \<lparr>cborFrame = (\<lambda>_. None), cborMessage = (\<lambda>_. None), cborInitResponse = (\<lambda>_. None),
      cborSecretResponse = (\<lambda>_. None), cborEmpty = (\<lambda>_. None),
      rtCall = (\<lambda>_ _. Inr \<lparr>runtimeRPCCallResponse = None, runtimeLocalRPCCallResponse = None\<rparr>),
      verifyInit = (\<lambda>_ _. None), verifySecret = (\<lambda>_ _ _ _. None),
      insecureRAK = [0], insecureREK = [1],
      publicKeyToPeerID = (\<lambda>_. Inl (ErrMsg ''malformed public key'')),
      getEpoch = Inr 0, getEphemeralSecret = (\<lambda>_ _. Inl ErrNoSuchEphemeralSecret),
      nodeSigner = [7], getRuntime = (\<lambda>_. Inl (ErrMsg ''no such runtime'')),
      getRuntimes = Inr [], getNode = (\<lambda>_. Inl ErrNoSuchNode), submitTx = (\<lambda>_. None),
      newNodeWatcher = None, committeeNodes = (\<lambda>_. Inr []),
      consensusInterval = Inr 100, getEpochBlock = (\<lambda>_. Inr 0), randInt63n = (\<lambda>_. 0),
      provisionRuntime = None\<rparr>"

text \<open>
  Scenario S5: the access list maps only peer \<open>P1\<close> to a runtime; the frame names the
  method \<open>secret_method\<close>; the hosted runtime answers every call.
\<close>

definition S5_worker :: worker where
  "S5_worker = (newWorker [0xC0] {} True)
     \<lparr>accessList := [''P1'' \<mapsto> {[0xAA]}], accessListByRuntime := [[0xAA] \<mapsto> [''P1'']],
      initCh := True\<rparr>"

definition S5_env :: env where
  "S5_env = quietEnv
     \<lparr>cborFrame := (\<lambda>d. if d = [1] then Some \<lparr>session = [], untrusted_plaintext = ''secret_method'', payload = []\<rparr> else None),
      rtCall := (\<lambda>_ _. Inr \<lparr>runtimeRPCCallResponse = Some [2], runtimeLocalRPCCallResponse = None\<rparr>)\<rparr>"

text \<open>
  An access list with two runtimes and two peers; the keys \<open>[2]\<close> and \<open>[3]\<close> have peer
  IDs, every other key is refused.
\<close>

definition AL_env :: env where
  "AL_env = quietEnv
     \<lparr>publicKeyToPeerID := (\<lambda>k. if k = [2] then Inr ''P2'' else if k = [3] then Inr ''P3''
                                 else Inl (ErrMsg ''malformed public key''))\<rparr>"

definition AL_worker :: worker where
  "AL_worker = (newWorker [0xC0] {} True)
     \<lparr>accessList := [''P1'' \<mapsto> {[0xAA]}, ''P2'' \<mapsto> {[0xAA], [0xBB]}],
      accessListByRuntime := [[0xAA] \<mapsto> [''P1'', ''P2''], [0xBB] \<mapsto> [''P2'']]\<rparr>"

definition AL_nodes :: "node list" where
  "AL_nodes = [\<lparr>node_id = [13], p2p_id = [3], node_runtimes = []\<rparr>,
               \<lparr>node_id = [19], p2p_id = [9], node_runtimes = []\<rparr>]"

definition AL_skewed :: worker where
  "AL_skewed = (newWorker [0xC0] {} True)
     \<lparr>accessList := [''P1'' \<mapsto> {[0xAA], [0xBB]}],
      accessListByRuntime := [[0xAA] \<mapsto> [''P1'']]\<rparr>"

text \<open>
  Scenario S1: an insecure status without a policy; the hosted runtime answers the
  \<open>init\<close> call with a response whose signature no key verifies.
\<close>

definition S1_response :: signed_init_response where
  "S1_response = \<lparr>init_response = \<lparr>is_secure = False, checksum = [], policy_checksum = [4]\<rparr>,
                  init_signature = [66]\<rparr>"

definition S1_status :: status where
  "S1_status = \<lparr>status_id = [0xC0], is_initialized = True, status_is_secure = False,
                status_checksum = [], status_nodes = [[7]], status_policy = None\<rparr>"

definition S1_env :: env where
  "S1_env = quietEnv
     \<lparr>rtCall := (\<lambda>_ _. Inr \<lparr>runtimeRPCCallResponse = None, runtimeLocalRPCCallResponse = Some [5]\<rparr>),
      cborMessage := (\<lambda>b. if b = [5] then Some \<lparr>msg_response = Some \<lparr>body_success = Some [6], body_error = None\<rparr>\<rparr> else None),
      cborInitResponse := (\<lambda>b. if b = [6] then Some S1_response else None),
      verifyInit := (\<lambda>_ _. Some (ErrMsg ''signature verification failed''))\<rparr>"

definition S1_worker :: worker where
  "S1_worker = newWorker [0xC0] {} True"

text \<open>The same with a signature that verifies under the key \<open>[0x52]\<close> only.\<close>

definition S1_keyed_env :: env where
  "S1_keyed_env = S1_env
     \<lparr>verifyInit := (\<lambda>resp key. if key = [0x52] then None else Some (ErrMsg ''signature verification failed''))\<rparr>"

definition tee_of :: "tee_hardware \<Rightarrow> runtime_status" where
  "tee_of h = \<lparr>version = 1, capabilityTEE = Some \<lparr>hardware = h, rak = [0x52], rek = None\<rparr>\<rparr>"

text \<open>
  Scenario S4: the policy lets only runtime \<open>0xAA\<close> query; runtimes \<open>0xAA\<close> and
  \<open>0xBB\<close> are compute runtimes of this key manager.
\<close>

definition S4_status :: status where
  "S4_status = \<lparr>status_id = [0xC0], is_initialized = True, status_is_secure = True,
                status_checksum = [], status_nodes = [[7]],
                status_policy = Some \<lparr>enclaves = [([0xE1], \<lparr>may_query = [([0xAA], [])]\<rparr>)],
                                       policy_signatures = []\<rparr>\<rparr>"

definition S4_runtime :: "namespace \<Rightarrow> registry_runtime" where
  "S4_runtime rid = \<lparr>rt_id = rid, rt_kind = KindCompute, rt_key_manager = Some [0xC0],
                     rt_tee_hardware = TEEHardwareInvalid\<rparr>"

text \<open>
  Scenario S6: the consensus epoch is 100 and the secrets of the epochs 81 to 100 are
  published; the enclave accepts every load. The loop has handled the first status of its
  runtime, so the hosted runtime is provisioned.
\<close>

definition S6_secret :: "epoch_time \<Rightarrow> signed_secret" where
  "S6_secret ep = \<lparr>secret_id = [0xC0], secret_epoch = ep, secret_ciphertexts = [],
                   secret_signature = []\<rparr>"




text \<open>
  Scenarios S2 and S3: the status names this node as the only committee member, the runtime
  has started, the epoch has moved to 100 and the height 1007 was chosen for the
  generation. In S3 no secret is published for epoch 101 and the enclave generates one,
  which verifies; in S2 the secret of epoch 101 is already published.
\<close>

definition S3_env :: env where
  "S3_env = quietEnv
     \<lparr>rtCall := (\<lambda>_ _. Inr \<lparr>runtimeRPCCallResponse = None, runtimeLocalRPCCallResponse = Some [5]\<rparr>),
      cborMessage := (\<lambda>b. if b = [5] then Some \<lparr>msg_response = Some \<lparr>body_success = Some [6], body_error = None\<rparr>\<rparr> else None),
      cborInitResponse := (\<lambda>b. if b = [6] then Some S1_response else None),
      cborSecretResponse := (\<lambda>b. if b = [6] then Some (S6_secret 101) else None),
      cborEmpty := (\<lambda>b. if b = [6] then Some () else None),
      getEpoch := Inr 100,
      getRuntime := (\<lambda>rid. Inr \<lparr>rt_id = rid, rt_kind = KindKeyManager, rt_key_manager = None,
                                 rt_tee_hardware = TEEHardwareInvalid\<rparr>),
      getEpochBlock := (\<lambda>_. Inr 1000),
      randInt63n := (\<lambda>_. 7)\<rparr>"

definition S2_env :: env where
  "S2_env = S3_env\<lparr>getEphemeralSecret := (\<lambda>rid ep. if ep = 101 then Inr (S6_secret 101)
                                                   else Inl ErrNoSuchEphemeralSecret)\<rparr>"

definition S3_ready :: loop where
  "S3_ready = run [(S3_env, EvStatus S1_status), (S3_env, EvRuntime (Started 3 None)),
                   (S3_env, EvEpoch 100), (S3_env, EvBlock 1007)]
                (startLoop (newWorker [0xC0] {} True))"


section \<open>Verified properties\<close>

subsection \<open>The access gate of CallEnclave\<close>

lemma callEnclaveAccess_noise:
  assumes "ctx_peer ctx = Some p" and "cborFrame e data = Some fr"
    and "untrusted_plaintext fr \<noteq> []"
    and "untrusted_plaintext fr \<noteq> RPCMethodGetPublicKey"
    and "untrusted_plaintext fr \<noteq> RPCMethodGetPublicEphemeralKey"
  shows "callEnclaveAccess e w ctx data KindNoiseSession =
           (if p \<notin> privatePeers w \<and> accessList w p = None then Some ErrNotAuthorized else None)"
  using assms by (simp add: callEnclaveAccess_def)

lemma CallEnclave_refused:
  "callEnclaveAccess e w ctx data k = Some err \<Longrightarrow> CallEnclave e w ctx data k = (Inl err, w)"
  by (simp add: CallEnclave_def)

lemma CallEnclave_dispatched:
  assumes "callEnclaveAccess e w ctx data k = None" and "initCh w" and "ctx_done ctx = None"
  shows "calls (snd (CallEnclave e w ctx data k)) = calls w @ [RuntimeRPCCallRequest data k]"
  using assms by (simp add: CallEnclave_def dispatchCall_def Let_def split: sum.splits option.splits)

text \<open>
  Claim C1. A Noise-session call whose decoded frame names a method other than the empty
  one, \<open>get_public_key\<close> and \<open>get_public_ephemeral_key\<close>: from a peer that is neither a
  private peer nor a key of the access list, it returns the not-authorized error and the
  worker (with its log of requests to the enclave) is unchanged, whatever the frame holds;
  from a private peer or a peer with an access list entry the access switch lets the call
  through, and once the worker is initialized and the context is live the request is handed
  to the hosted runtime.
\<close>

theorem CallEnclave_access_list_gate:
  assumes "ctx_peer ctx = Some p" and "cborFrame e data = Some fr"
    and "untrusted_plaintext fr \<noteq> []"
    and "untrusted_plaintext fr \<noteq> RPCMethodGetPublicKey"
    and "untrusted_plaintext fr \<noteq> RPCMethodGetPublicEphemeralKey"
  shows "(p \<notin> privatePeers w \<and> accessList w p = None \<longrightarrow>
            CallEnclave e w ctx data KindNoiseSession = (Inl ErrNotAuthorized, w))
       \<and> (p \<in> privatePeers w \<or> accessList w p \<noteq> None \<longrightarrow>
            callEnclaveAccess e w ctx data KindNoiseSession = None
          \<and> (initCh w \<and> ctx_done ctx = None \<longrightarrow>
               calls (snd (CallEnclave e w ctx data KindNoiseSession))
                 = calls w @ [RuntimeRPCCallRequest data KindNoiseSession]))"
proof (intro conjI impI)
  assume "p \<notin> privatePeers w \<and> accessList w p = None"
  then have "callEnclaveAccess e w ctx data KindNoiseSession = Some ErrNotAuthorized"
    using callEnclaveAccess_noise [OF assms] by simp
  then show "CallEnclave e w ctx data KindNoiseSession = (Inl ErrNotAuthorized, w)"
    by (rule CallEnclave_refused)
next
  assume allowed: "p \<in> privatePeers w \<or> accessList w p \<noteq> None"
  then show pass: "callEnclaveAccess e w ctx data KindNoiseSession = None"
    using callEnclaveAccess_noise [OF assms, of w] by auto
  assume "initCh w \<and> ctx_done ctx = None"
  then show "calls (snd (CallEnclave e w ctx data KindNoiseSession))
               = calls w @ [RuntimeRPCCallRequest data KindNoiseSession]"
    using CallEnclave_dispatched [OF pass] by simp
qed

theorem CallEnclave_access_list_gate_witness:
  "CallEnclave S5_env S5_worker \<lparr>ctx_peer = Some ''P2'', ctx_done = None, ctx_first = False\<rparr> [1] KindNoiseSession
     = (Inl ErrNotAuthorized, S5_worker)
   \<and> callEnclaveAccess S5_env S5_worker \<lparr>ctx_peer = Some ''P1'', ctx_done = None, ctx_first = False\<rparr> [1] KindNoiseSession = None
   \<and> calls (snd (CallEnclave S5_env S5_worker \<lparr>ctx_peer = Some ''P1'', ctx_done = None, ctx_first = False\<rparr> [1] KindNoiseSession))
       = [RuntimeRPCCallRequest [1] KindNoiseSession]"
  using CallEnclave_access_list_gate [of "\<lparr>ctx_peer = Some ''P2'', ctx_done = None, ctx_first = False\<rparr>" "''P2''" S5_env "[1]"
          "\<lparr>session = [], untrusted_plaintext = ''secret_method'', payload = []\<rparr>" S5_worker]
        CallEnclave_access_list_gate [of "\<lparr>ctx_peer = Some ''P1'', ctx_done = None, ctx_first = False\<rparr>" "''P1''" S5_env "[1]"
          "\<lparr>session = [], untrusted_plaintext = ''secret_method'', payload = []\<rparr>" S5_worker]
  by (simp add: S5_env_def S5_worker_def quietEnv_def newWorker_def
        RPCMethodGetPublicKey_def RPCMethodGetPublicEphemeralKey_def)

text \<open>
  Claim C10. A Noise-session call with no peer in its context fails with the
  not-authorized error whatever the data and the decoder are (the frame is not looked at);
  with a peer and data that do not decode as a frame it fails with the malformed-request
  error. In both cases the worker, and so the log of requests to the enclave, is unchanged.
\<close>

theorem CallEnclave_peer_and_frame_errors:
  "(ctx_peer ctx = None \<longrightarrow>
      CallEnclave e w ctx data KindNoiseSession = (Inl ErrNotAuthorized, w))
   \<and> (ctx_peer ctx \<noteq> None \<and> cborFrame e data = None \<longrightarrow>
      CallEnclave e w ctx data KindNoiseSession = (Inl ErrMalformedRequest, w))"
  by (auto simp: CallEnclave_def callEnclaveAccess_def)

theorem CallEnclave_peer_and_frame_errors_witness:
  "CallEnclave S5_env S5_worker \<lparr>ctx_peer = None, ctx_done = None, ctx_first = False\<rparr> [1] KindNoiseSession
     = (Inl ErrNotAuthorized, S5_worker)
   \<and> CallEnclave S5_env S5_worker \<lparr>ctx_peer = Some ''P1'', ctx_done = None, ctx_first = False\<rparr> [9] KindNoiseSession
     = (Inl ErrMalformedRequest, S5_worker)"
  using CallEnclave_peer_and_frame_errors [of "\<lparr>ctx_peer = None, ctx_done = None, ctx_first = False\<rparr>" S5_env S5_worker "[1]"]
        CallEnclave_peer_and_frame_errors [of "\<lparr>ctx_peer = Some ''P1'', ctx_done = None, ctx_first = False\<rparr>" S5_env S5_worker "[9]"]
  by (simp add: S5_env_def quietEnv_def)

subsection \<open>The access control table\<close>

lemma clearOldNodes_apply:
  "clearOldNodes r ps al p =
     (if p \<in> set ps then (if entryOf al p - {r} = {} then None else Some (entryOf al p - {r}))
      else al p)"
proof (induction ps arbitrary: al)
  case Nil
  show ?case by simp
next
  case (Cons q ps)
  show ?case
    by (auto simp: Cons.IH clearPeer_def entryOf_def Let_def split: option.splits)
qed

lemma addNodes_peers:
  "snd (addNodes e r ns (al, peers)) = peers @ derivedPeers e ns"
  by (induction ns arbitrary: al peers) (auto simp: derivedPeers_def Let_def split: sum.splits)

lemma addNodes_apply:
  "fst (addNodes e r ns (al, peers)) p =
     (if p \<in> set (derivedPeers e ns) then Some (insert r (entryOf al p)) else al p)"
proof (induction ns arbitrary: al peers)
  case Nil
  show ?case by (simp add: derivedPeers_def)
next
  case (Cons n ns)
  show ?case
    by (auto simp: Cons.IH derivedPeers_def entryOf_def Let_def split: sum.splits option.splits)
qed

lemma setAccessList_byRuntime:
  "accessListByRuntime (setAccessList e r nodes w) =
     (accessListByRuntime w)(r \<mapsto> derivedPeers e nodes)"
  using addNodes_peers [of e r nodes _ "[]"]
  by (simp add: setAccessList_def Let_def split: prod.splits) (metis snd_conv)

lemma setAccessList_accessList:
  "accessList (setAccessList e r nodes w) =
     fst (addNodes e r nodes
       (clearOldNodes r (case accessListByRuntime w r of None \<Rightarrow> [] | Some ps \<Rightarrow> ps) (accessList w), []))"
  by (simp add: setAccessList_def Let_def split: prod.splits)

lemma setAccessList_apply:
  "accessList (setAccessList e r nodes w) p =
     (if p \<in> set (derivedPeers e nodes) then Some (insert r (entryOf (accessList w) p))
      else if listed (accessListByRuntime w) r p then
        (if entryOf (accessList w) p - {r} = {} then None
         else Some (entryOf (accessList w) p - {r}))
      else accessList w p)"
  by (auto simp: setAccessList_accessList addNodes_apply clearOldNodes_apply entryOf_def
        listed_def split: option.splits)

lemma allows_setAccessList_same:
  assumes "allows (accessList w) p r \<longrightarrow> listed (accessListByRuntime w) r p"
  shows "allows (accessList (setAccessList e r nodes w)) p r = (p \<in> set (derivedPeers e nodes))"
  using assms by (auto simp: allows_def setAccessList_apply split: option.splits)

lemma allows_setAccessList_other:
  "r' \<noteq> r \<Longrightarrow> allows (accessList (setAccessList e r nodes w)) p r' = allows (accessList w) p r'"
  by (auto simp: allows_def setAccessList_apply entryOf_def split: option.splits)

lemma listed_setAccessList:
  "listed (accessListByRuntime (setAccessList e r nodes w)) r' p =
     (if r' = r then p \<in> set (derivedPeers e nodes) else listed (accessListByRuntime w) r' p)"
  by (simp add: listed_def setAccessList_byRuntime)

lemma paired_fresh:
  "accessList w = Map.empty \<Longrightarrow> accessListByRuntime w = Map.empty \<Longrightarrow> paired w"
  by (simp add: paired_def allows_def listed_def)

lemma paired_setAccessList:
  assumes "paired w"
  shows "paired (setAccessList e r nodes w)"
proof -
  have a: "allows (accessList (setAccessList e r nodes w)) p r'
         = listed (accessListByRuntime (setAccessList e r nodes w)) r' p" for p r'
  proof (cases "r' = r")
    case True
    then show ?thesis
      using assms by (simp add: allows_setAccessList_same listed_setAccessList paired_def)
  next
    case False
    then show ?thesis
      using assms by (simp add: allows_setAccessList_other listed_setAccessList paired_def)
  qed
  have b: "accessList (setAccessList e r nodes w) p \<noteq> Some {}" for p
    using assms by (auto simp: setAccessList_apply paired_def)
  from a b show ?thesis by (simp add: paired_def)
qed

lemma paired_mirrored:
  assumes "paired w"
  shows "mirrored w"
proof -
  have "(accessList w peer \<noteq> None) = (\<exists>r. listed (accessListByRuntime w) r peer)" for peer
  proof
    assume "accessList w peer \<noteq> None"
    then obtain en where en: "accessList w peer = Some en" by auto
    with assms have "en \<noteq> {}" by (auto simp: paired_def)
    then obtain r where "r \<in> en" by auto
    with en have "allows (accessList w) peer r" by (simp add: allows_def)
    with assms show "\<exists>r. listed (accessListByRuntime w) r peer" by (auto simp: paired_def)
  next
    assume "\<exists>r. listed (accessListByRuntime w) r peer"
    then obtain r where "listed (accessListByRuntime w) r peer" ..
    with assms have "allows (accessList w) peer r" by (simp add: paired_def)
    then show "accessList w peer \<noteq> None" by (auto simp: allows_def split: option.splits)
  qed
  then show ?thesis by (simp add: mirrored_def)
qed

lemma accessReachable_paired: "accessReachable w \<Longrightarrow> paired w"
proof (induction rule: accessReachable.induct)
  case (fresh w)
  then show ?case by (rule paired_fresh)
next
  case (updated w e r nodes)
  then show ?case by (simp add: paired_setAccessList)
next
  case (others w w')
  then show ?case by (simp add: paired_def)
qed

text \<open>
  Claim C7. The mirror invariant (a peer is a key of \<^verbatim>\<open>accessList\<close> exactly when some
  runtime's list in \<^verbatim>\<open>accessListByRuntime\<close> names it) holds when both maps are empty,
  and in every state the worker reaches from there it holds and still holds after
  \<^verbatim>\<open>setAccessList\<close>, for all arguments of the call.
\<close>

theorem mirror_invariant:
  "(accessList w0 = Map.empty \<and> accessListByRuntime w0 = Map.empty \<longrightarrow> mirrored w0)
   \<and> (accessReachable w \<longrightarrow> mirrored w \<and> mirrored (setAccessList e r nodes w))"
  by (auto intro: paired_mirrored paired_fresh paired_setAccessList accessReachable_paired)

text \<open>
  Claim C6. After \<^verbatim>\<open>setAccessList(r, N)\<close>, from any state of the two maps: the list kept for
  \<open>r\<close> is exactly the peer IDs derived from the P2P keys of \<open>N\<close>, in order, the nodes
  whose key has no peer ID left out; a peer that was listed for \<open>r\<close> and is not derived
  again loses the pair \<open>(peer, r)\<close>, and its whole entry when no runtime is left in it;
  every derived peer has the pair; the pairs of every other runtime, and the lists kept for
  every other runtime, are as before.
\<close>

theorem setAccessList_effect:
  "accessListByRuntime (setAccessList e r nodes w) r = Some (derivedPeers e nodes)
   \<and> (\<forall>p. listed (accessListByRuntime w) r p \<and> p \<notin> set (derivedPeers e nodes) \<longrightarrow>
         \<not> allows (accessList (setAccessList e r nodes w)) p r
       \<and> accessList (setAccessList e r nodes w) p =
           (if entryOf (accessList w) p - {r} = {} then None
            else Some (entryOf (accessList w) p - {r})))
   \<and> (\<forall>p. p \<in> set (derivedPeers e nodes) \<longrightarrow>
         allows (accessList (setAccessList e r nodes w)) p r)
   \<and> (\<forall>p r'. r' \<noteq> r \<longrightarrow>
         allows (accessList (setAccessList e r nodes w)) p r' = allows (accessList w) p r')
   \<and> (\<forall>r'. r' \<noteq> r \<longrightarrow>
         accessListByRuntime (setAccessList e r nodes w) r' = accessListByRuntime w r')"
proof -
  let ?w' = "setAccessList e r nodes w"
  have 1: "accessListByRuntime ?w' r = Some (derivedPeers e nodes)"
    by (simp add: setAccessList_byRuntime)
  have 2: "\<not> allows (accessList ?w') p r
       \<and> accessList ?w' p =
           (if entryOf (accessList w) p - {r} = {} then None
            else Some (entryOf (accessList w) p - {r}))"
    if "listed (accessListByRuntime w) r p \<and> p \<notin> set (derivedPeers e nodes)" for p
    using that by (simp add: allows_def setAccessList_apply)
  have 3: "allows (accessList ?w') p r" if "p \<in> set (derivedPeers e nodes)" for p
    using that by (simp add: allows_def setAccessList_apply)
  have 4: "allows (accessList ?w') p r' = allows (accessList w) p r'" if "r' \<noteq> r" for p r'
    using that by (rule allows_setAccessList_other)
  have 5: "accessListByRuntime ?w' r' = accessListByRuntime w r'" if "r' \<noteq> r" for r'
    using that by (simp add: setAccessList_byRuntime)
  from 1 2 3 4 5 show ?thesis by blast
qed

theorem setAccessList_effect_witness:
  "accessListByRuntime (setAccessList AL_env [0xAA] AL_nodes AL_worker) [0xAA] = Some [''P3'']
   \<and> accessList (setAccessList AL_env [0xAA] AL_nodes AL_worker) ''P1'' = None
   \<and> accessList (setAccessList AL_env [0xAA] AL_nodes AL_worker) ''P2'' = Some {[0xBB]}
   \<and> allows (accessList (setAccessList AL_env [0xAA] AL_nodes AL_worker)) ''P3'' [0xAA]
   \<and> allows (accessList (setAccessList AL_env [0xAA] AL_nodes AL_worker)) ''P2'' [0xBB]
   \<and> accessListByRuntime (setAccessList AL_env [0xAA] AL_nodes AL_worker) [0xBB] = Some [''P2'']"
proof -
  note T = setAccessList_effect [of AL_env "[0xAA]" AL_nodes AL_worker]
  have d: "derivedPeers AL_env AL_nodes = [''P3'']"
    by (simp add: derivedPeers_def AL_env_def AL_nodes_def quietEnv_def)
  have l: "listed (accessListByRuntime AL_worker) [0xAA] ''P1''"
          "listed (accessListByRuntime AL_worker) [0xAA] ''P2''"
    by (simp_all add: listed_def AL_worker_def)
  have en: "entryOf (accessList AL_worker) ''P1'' = {[0xAA]}"
           "entryOf (accessList AL_worker) ''P2'' = {[0xAA], [0xBB]}"
    by (simp_all add: entryOf_def AL_worker_def)
  have old: "allows (accessList AL_worker) ''P2'' [0xBB]"
            "accessListByRuntime AL_worker [0xBB] = Some [''P2'']"
    by (simp_all add: allows_def AL_worker_def)
  have diff: "{[0xAA], [0xBB]} - {[0xAA]} = {[0xBB :: 8 word]}"
    by auto
  show ?thesis
    using T [THEN conjunct1]
      T [THEN conjunct2, THEN conjunct1, THEN spec, of "''P1''"]
      T [THEN conjunct2, THEN conjunct1, THEN spec, of "''P2''"]
      T [THEN conjunct2, THEN conjunct2, THEN conjunct1, THEN spec, of "''P3''"]
      T [THEN conjunct2, THEN conjunct2, THEN conjunct2, THEN conjunct1, THEN spec, of "''P2''", THEN spec, of "[0xBB]"]
      T [THEN conjunct2, THEN conjunct2, THEN conjunct2, THEN conjunct2, THEN spec, of "[0xBB]"]
    by (simp add: d l en old diff)
qed

theorem mirror_invariant_witness:
  "mirrored (newWorker [0xC0] {} True)
   \<and> mirrored (setAccessList AL_env [0xAA] AL_nodes (newWorker [0xC0] {} True))
   \<and> mirrored (setAccessList AL_env [0xBB] [] (setAccessList AL_env [0xAA] AL_nodes (newWorker [0xC0] {} True)))"
proof -
  have f: "accessReachable (newWorker [0xC0] {} True)"
    by (rule accessReachable.fresh) (simp_all add: newWorker_def)
  have e: "accessList (newWorker [0xC0] {} True) = Map.empty
         \<and> accessListByRuntime (newWorker [0xC0] {} True) = Map.empty"
    by (simp add: newWorker_def)
  show ?thesis
    using mirror_invariant [of "newWorker [0xC0] {} True" "newWorker [0xC0] {} True" AL_env "[0xAA]" AL_nodes]
      mirror_invariant [of "newWorker [0xC0] {} True"
         "setAccessList AL_env [0xAA] AL_nodes (newWorker [0xC0] {} True)" AL_env "[0xBB]" "[]"]
      f e accessReachable.updated [OF f, of AL_env "[0xAA]" AL_nodes]
    by simp
qed

text \<open>
  The mirror invariant is kept because the reachable states satisfy the stronger \<open>paired\<close>:
  from a state where a peer's entry names a runtime whose list does not name the peer
  (no call sequence builds one), clearing the only list that names the peer would leave the
  entry behind.
\<close>

lemma mirrored_not_inductive:
  "mirrored AL_skewed \<and> \<not> mirrored (setAccessList AL_env [0xAA] [] AL_skewed)"
proof
  have "(accessList AL_skewed peer \<noteq> None) = (\<exists>r. listed (accessListByRuntime AL_skewed) r peer)" for peer
    by (auto simp: AL_skewed_def listed_def split: if_splits)
  then show "mirrored AL_skewed" by (simp add: mirrored_def)
next
  have d: "derivedPeers AL_env [] = []" by (simp add: derivedPeers_def)
  have a: "accessList (setAccessList AL_env [0xAA] [] AL_skewed) ''P1'' = Some {[0xBB]}"
    by (auto simp: setAccessList_apply d listed_def entryOf_def AL_skewed_def)
  have b: "\<not> listed (accessListByRuntime (setAccessList AL_env [0xAA] [] AL_skewed)) r ''P1''" for r
    by (simp add: listed_setAccessList d) (simp add: listed_def AL_skewed_def)
  show "\<not> mirrored (setAccessList AL_env [0xAA] [] AL_skewed)"
    using a b by (auto simp: mirrored_def)
qed

subsection \<open>The status reconciler\<close>

lemma localCallEnclave_worker:
  "snd (localCallEnclave e method args dec w) = w\<lparr>calls := calls w @ [RuntimeLocalRPCCallRequest method args]\<rparr>"
  by (simp add: localCallEnclave_def Let_def split: sum.splits option.splits)

lemma updateStatus_after_init:
  assumes "localCallEnclave e RPCMethodInit
             (InitArgs \<lparr>req_checksum = status_checksum st, req_policy = status_policy st,
                        req_may_generate = mayGenerate w\<rparr>) (cborInitResponse e) w = (Inr resp, w1)"
  shows "updateStatus e st rs w =
     (case validateInitSignature e rs resp of
        Some err \<Rightarrow> (Some err, w1\<lparr>initTicker := True\<rparr>)
      | None \<Rightarrow>
          (None,
           w1\<lparr>initTicker := False,
              policyUpdateCount := policyUpdateCount w1 + 1,
              registrations := registrations w1 @
                [SetAvailableWithCallback (version rs) resp (capabilityTEE rs)],
              initCallback := True,
              enclaveStatus := Some resp,
              policy := status_policy st,
              policyChecksum := policy_checksum (init_response resp)\<rparr>))"
  using assms by (simp add: updateStatus_def)

lemma updateStatus_cached:
  assumes "localCallEnclave e RPCMethodInit
             (InitArgs \<lparr>req_checksum = status_checksum st, req_policy = status_policy st,
                        req_may_generate = mayGenerate w\<rparr>) (cborInitResponse e) w = (Inr resp, w1)"
  shows "fst (updateStatus e st rs w) = validateInitSignature e rs resp"
    and "validateInitSignature e rs resp = None \<Longrightarrow>
           enclaveStatus (snd (updateStatus e st rs w)) = Some resp
         \<and> policy (snd (updateStatus e st rs w)) = status_policy st
         \<and> policyChecksum (snd (updateStatus e st rs w)) = policy_checksum (init_response resp)"
    and "validateInitSignature e rs resp \<noteq> None \<Longrightarrow>
           enclaveStatus (snd (updateStatus e st rs w)) = enclaveStatus w
         \<and> policy (snd (updateStatus e st rs w)) = policy w
         \<and> policyChecksum (snd (updateStatus e st rs w)) = policyChecksum w"
proof -
  have w1: "w1 = w\<lparr>calls := calls w @ [RuntimeLocalRPCCallRequest RPCMethodInit
             (InitArgs \<lparr>req_checksum = status_checksum st, req_policy = status_policy st,
                        req_may_generate = mayGenerate w\<rparr>)]\<rparr>"
    using localCallEnclave_worker [of e RPCMethodInit _ "cborInitResponse e" w] assms
    by (metis snd_conv)
  show "fst (updateStatus e st rs w) = validateInitSignature e rs resp"
    by (simp add: updateStatus_after_init [OF assms] split: option.splits)
  show "validateInitSignature e rs resp = None \<Longrightarrow>
           enclaveStatus (snd (updateStatus e st rs w)) = Some resp
         \<and> policy (snd (updateStatus e st rs w)) = status_policy st
         \<and> policyChecksum (snd (updateStatus e st rs w)) = policy_checksum (init_response resp)"
    by (simp add: updateStatus_after_init [OF assms])
  show "validateInitSignature e rs resp \<noteq> None \<Longrightarrow>
           enclaveStatus (snd (updateStatus e st rs w)) = enclaveStatus w
         \<and> policy (snd (updateStatus e st rs w)) = policy w
         \<and> policyChecksum (snd (updateStatus e st rs w)) = policyChecksum w"
    by (auto simp: updateStatus_after_init [OF assms] w1)
qed

lemma validateInitSignature_cases:
  "validateInitSignature e rs resp =
     (case capabilityTEE rs of
        None \<Rightarrow> None
      | Some tee \<Rightarrow>
          (case hardware tee of
             TEEHardwareInvalid \<Rightarrow>
               map_option (ErrWrap ''worker/keymanager: failed to validate initialization response signature'')
                 (verifyInit e resp (insecureRAK e))
           | TEEHardwareIntelSGX \<Rightarrow>
               map_option (ErrWrap ''worker/keymanager: failed to validate initialization response signature'')
                 (verifyInit e resp (rak tee))
           | TEEHardwareOther h \<Rightarrow> Some ErrUnknownTEE))"
  by (simp add: validateInitSignature_def split: option.splits tee_hardware.splits)

text \<open>
  Claim C2, as the code has it. When the \<open>init\<close> call yields a signed response: with no
  TEE capability in the runtime status no signature is checked and the response is cached;
  with hardware Invalid the call succeeds exactly when the signature verifies under the
  fixed insecure RAK; with Intel SGX exactly when it verifies under the capability's RAK;
  with any other hardware it fails with the unknown-TEE error. The response, the policy and
  the policy checksum are cached exactly on success; on every failure the three fields
  keep their values.
\<close>

theorem updateStatus_signature_check:
  assumes "localCallEnclave e RPCMethodInit
             (InitArgs \<lparr>req_checksum = status_checksum st, req_policy = status_policy st,
                        req_may_generate = mayGenerate w\<rparr>) (cborInitResponse e) w = (Inr resp, w1)"
  shows "(capabilityTEE rs = None \<longrightarrow> fst (updateStatus e st rs w) = None)
       \<and> (\<forall>tee. capabilityTEE rs = Some tee \<longrightarrow>
            (hardware tee = TEEHardwareInvalid \<longrightarrow>
               (fst (updateStatus e st rs w) = None) = (verifyInit e resp (insecureRAK e) = None))
          \<and> (hardware tee = TEEHardwareIntelSGX \<longrightarrow>
               (fst (updateStatus e st rs w) = None) = (verifyInit e resp (rak tee) = None))
          \<and> (hardware tee \<noteq> TEEHardwareInvalid \<and> hardware tee \<noteq> TEEHardwareIntelSGX \<longrightarrow>
               fst (updateStatus e st rs w) = Some ErrUnknownTEE))
       \<and> (fst (updateStatus e st rs w) = None \<longrightarrow>
            enclaveStatus (snd (updateStatus e st rs w)) = Some resp
          \<and> policy (snd (updateStatus e st rs w)) = status_policy st
          \<and> policyChecksum (snd (updateStatus e st rs w)) = policy_checksum (init_response resp))
       \<and> (fst (updateStatus e st rs w) \<noteq> None \<longrightarrow>
            enclaveStatus (snd (updateStatus e st rs w)) = enclaveStatus w
          \<and> policy (snd (updateStatus e st rs w)) = policy w
          \<and> policyChecksum (snd (updateStatus e st rs w)) = policyChecksum w)"
proof -
  note U = updateStatus_cached [OF assms, where rs = rs]
  have 1: "capabilityTEE rs = None \<longrightarrow> fst (updateStatus e st rs w) = None"
    by (simp add: U(1) validateInitSignature_cases)
  have 2: "\<forall>tee. capabilityTEE rs = Some tee \<longrightarrow>
            (hardware tee = TEEHardwareInvalid \<longrightarrow>
               (fst (updateStatus e st rs w) = None) = (verifyInit e resp (insecureRAK e) = None))
          \<and> (hardware tee = TEEHardwareIntelSGX \<longrightarrow>
               (fst (updateStatus e st rs w) = None) = (verifyInit e resp (rak tee) = None))
          \<and> (hardware tee \<noteq> TEEHardwareInvalid \<and> hardware tee \<noteq> TEEHardwareIntelSGX \<longrightarrow>
               fst (updateStatus e st rs w) = Some ErrUnknownTEE)"
    by (auto simp: U(1) validateInitSignature_cases split: tee_hardware.splits)
  from 1 2 U(2) U(3) show ?thesis
    by (simp add: U(1))
qed

text \<open>
  Claim C2 as written fails in scenario S1: the runtime status has no TEE capability, the
  signature does not verify under the insecure RAK, and the response is cached all the same.
\<close>

theorem S1_unverified_response_cached:
  "verifyInit S1_env S1_response (insecureRAK S1_env) \<noteq> None
   \<and> fst (updateStatus S1_env S1_status \<lparr>version = 1, capabilityTEE = None\<rparr> S1_worker) = None
   \<and> enclaveStatus (snd (updateStatus S1_env S1_status \<lparr>version = 1, capabilityTEE = None\<rparr> S1_worker))
       = Some S1_response"
  by (simp add: updateStatus_def localCallEnclave_def validateInitSignature_def Let_def
        S1_env_def S1_worker_def S1_status_def quietEnv_def newWorker_def)

theorem updateStatus_signature_check_witness:
  "fst (updateStatus S1_keyed_env S1_status (tee_of TEEHardwareIntelSGX) S1_worker) = None
   \<and> enclaveStatus (snd (updateStatus S1_keyed_env S1_status (tee_of TEEHardwareIntelSGX) S1_worker)) = Some S1_response
   \<and> fst (updateStatus S1_keyed_env S1_status (tee_of TEEHardwareInvalid) S1_worker) \<noteq> None
   \<and> enclaveStatus (snd (updateStatus S1_keyed_env S1_status (tee_of TEEHardwareInvalid) S1_worker)) = None
   \<and> fst (updateStatus S1_keyed_env S1_status (tee_of (TEEHardwareOther 2)) S1_worker) = Some ErrUnknownTEE
   \<and> enclaveStatus (snd (updateStatus S1_keyed_env S1_status (tee_of (TEEHardwareOther 2)) S1_worker)) = None
   \<and> fst (updateStatus S1_keyed_env S1_status \<lparr>version = 1, capabilityTEE = None\<rparr> S1_worker) = None"
proof -
  have call: "localCallEnclave S1_keyed_env RPCMethodInit
      (InitArgs \<lparr>req_checksum = status_checksum S1_status, req_policy = status_policy S1_status,
                 req_may_generate = mayGenerate S1_worker\<rparr>) (cborInitResponse S1_keyed_env) S1_worker
    = (Inr S1_response, S1_worker\<lparr>calls := calls S1_worker @ [RuntimeLocalRPCCallRequest RPCMethodInit
      (InitArgs \<lparr>req_checksum = status_checksum S1_status, req_policy = status_policy S1_status,
                 req_may_generate = mayGenerate S1_worker\<rparr>)]\<rparr>)"
    by (simp add: localCallEnclave_def Let_def S1_keyed_env_def S1_env_def quietEnv_def)
  have keys: "verifyInit S1_keyed_env S1_response [0x52] = None"
    "verifyInit S1_keyed_env S1_response (insecureRAK S1_keyed_env) \<noteq> None"
    by (simp_all add: S1_keyed_env_def S1_env_def quietEnv_def)
  have none: "enclaveStatus S1_worker = None"
    by (simp add: S1_worker_def newWorker_def)
  note T = updateStatus_signature_check [OF call]
  show ?thesis
    using T [of "tee_of TEEHardwareIntelSGX"] T [of "tee_of TEEHardwareInvalid"]
      T [of "tee_of (TEEHardwareOther 2)"] T [of "\<lparr>version = 1, capabilityTEE = None\<rparr>"]
      keys none
    by (simp add: tee_of_def)
qed

subsection \<open>Client runtime watchers\<close>

lemma mayQueryAny_list_ex:
  "mayQueryAny encs rid = list_ex (\<lambda>(ident, enc). rid \<in> fst ` set (may_query enc)) encs"
  by (induction encs rid rule: mayQueryAny.induct) (auto simp: map_of_eq_None_iff)

lemma runtimeInPolicy_iff:
  "runtimeInPolicy st rid =
     (listedInPolicy st rid \<or> (\<not> status_is_secure st \<and> status_policy st = None))"
  by (auto simp: runtimeInPolicy_def listedInPolicy_def mayQueryAny_list_ex split: option.splits)

lemma crwEpochTransition_fields:
  "clientRuntimes (crwEpochTransition e rid w) = clientRuntimes w"
  "computeRuntimeCount (crwEpochTransition e rid w) = computeRuntimeCount w"
  by (simp_all add: crwEpochTransition_def setAccessList_def Let_def split: sum.splits prod.splits)

lemma startClientRuntimeWatcher_skip:
  assumes "\<not> (watcherConditions w rt status \<and> newNodeWatcher e = None)"
  shows "snd (startClientRuntimeWatcher e rt status w) = w"
  using assms
  by (auto simp: startClientRuntimeWatcher_def watcherConditions_def runtimeInPolicy_iff
        split: option.splits)

lemma startClientRuntimeWatcher_start:
  assumes "watcherConditions w rt status" and "newNodeWatcher e = None"
  shows "startClientRuntimeWatcher e rt status w =
     (None, (crwEpochTransition e (rt_id rt) w)
        \<lparr>clientRuntimes := clientRuntimes w @ [rt_id rt],
         computeRuntimeCount := computeRuntimeCount w + 1\<rparr>)"
  using assms
  by (auto simp: startClientRuntimeWatcher_def watcherConditions_def runtimeInPolicy_iff
        crwEpochTransition_fields Let_def split: option.splits)

lemma startClientRuntimeWatcher_result:
  "fst (startClientRuntimeWatcher e rt status w)
     = (if watcherConditions w rt status then newNodeWatcher e else None)"
  by (auto simp: startClientRuntimeWatcher_def watcherConditions_def runtimeInPolicy_iff Let_def
        split: option.splits)

text \<open>
  Claim C9, as the code has it. A watcher for runtime \<open>R\<close> is started exactly when the
  conditions of the specification hold (status initialized, \<open>R\<close> a compute runtime whose
  key manager is this worker's runtime, no watcher for \<open>R\<close> yet, \<open>R\<close> listed under some
  enclave's may-query map or the status insecure without a policy) and the node descriptor
  watcher can be created; then no error is returned and the counter is incremented. In
  every other case the worker is unchanged, the counter with it: when the conditions hold
  and the node descriptor watcher cannot be created its error is returned, and when the
  conditions do not hold no error is returned.
\<close>

theorem startClientRuntimeWatcher_started_iff:
  "watcherStarted rt w (snd (startClientRuntimeWatcher e rt status w))
     = (watcherConditions w rt status \<and> newNodeWatcher e = None)
   \<and> (watcherConditions w rt status \<and> newNodeWatcher e = None \<longrightarrow>
        fst (startClientRuntimeWatcher e rt status w) = None
      \<and> clientRuntimes (snd (startClientRuntimeWatcher e rt status w)) = clientRuntimes w @ [rt_id rt]
      \<and> computeRuntimeCount (snd (startClientRuntimeWatcher e rt status w)) = computeRuntimeCount w + 1)
   \<and> (\<not> (watcherConditions w rt status \<and> newNodeWatcher e = None) \<longrightarrow>
        snd (startClientRuntimeWatcher e rt status w) = w
      \<and> computeRuntimeCount (snd (startClientRuntimeWatcher e rt status w)) = computeRuntimeCount w)
   \<and> (watcherConditions w rt status \<and> newNodeWatcher e = Some err \<longrightarrow>
        startClientRuntimeWatcher e rt status w = (Some err, w))
   \<and> (\<not> watcherConditions w rt status \<longrightarrow>
        startClientRuntimeWatcher e rt status w = (None, w))"
proof -
  have r: "fst (startClientRuntimeWatcher e rt status w)
     = (if watcherConditions w rt status then newNodeWatcher e else None)"
    by (rule startClientRuntimeWatcher_result)
  show ?thesis
  proof (cases "watcherConditions w rt status \<and> newNodeWatcher e = None")
    case True
    then have fresh: "rt_id rt \<notin> set (clientRuntimes w)"
      by (auto simp: watcherConditions_def split: option.splits)
    from True show ?thesis
      by (simp add: startClientRuntimeWatcher_start watcherStarted_def fresh)
  next
    case False
    then have "snd (startClientRuntimeWatcher e rt status w) = w"
      by (rule startClientRuntimeWatcher_skip)
    with False r show ?thesis
      by (auto simp: watcherStarted_def prod_eq_iff)
  qed
qed

theorem startClientRuntimeWatcher_started_iff_witness:
  "\<not> watcherStarted (S4_runtime [0xBB]) S1_worker
       (snd (startClientRuntimeWatcher quietEnv (S4_runtime [0xBB]) (Some S4_status) S1_worker))
   \<and> computeRuntimeCount
       (snd (startClientRuntimeWatcher quietEnv (S4_runtime [0xBB]) (Some S4_status) S1_worker)) = 0
   \<and> watcherStarted (S4_runtime [0xAA]) S1_worker
       (snd (startClientRuntimeWatcher quietEnv (S4_runtime [0xAA]) (Some S4_status) S1_worker))
   \<and> computeRuntimeCount
       (snd (startClientRuntimeWatcher quietEnv (S4_runtime [0xAA]) (Some S4_status) S1_worker)) = 1
   \<and> startClientRuntimeWatcher (quietEnv\<lparr>newNodeWatcher := Some (ErrMsg ''watch nodes failed'')\<rparr>)
        (S4_runtime [0xAA]) (Some S4_status) S1_worker
       = (Some (ErrMsg ''watch nodes failed''), S1_worker)
   \<and> startClientRuntimeWatcher quietEnv (S4_runtime [0xBB]) (Some S4_status) S1_worker
       = (None, S1_worker)"
proof -
  have a: "watcherConditions S1_worker (S4_runtime [0xAA]) (Some S4_status)"
    by (simp add: watcherConditions_def listedInPolicy_def S4_status_def S4_runtime_def
          S1_worker_def newWorker_def)
  have b: "\<not> watcherConditions S1_worker (S4_runtime [0xBB]) (Some S4_status)"
    by (simp add: watcherConditions_def listedInPolicy_def S4_status_def S4_runtime_def
          S1_worker_def newWorker_def)
  have n: "newNodeWatcher quietEnv = None" "computeRuntimeCount S1_worker = 0"
    "newNodeWatcher (quietEnv\<lparr>newNodeWatcher := Some (ErrMsg ''watch nodes failed'')\<rparr>)
       = Some (ErrMsg ''watch nodes failed'')"
    by (simp_all add: quietEnv_def S1_worker_def newWorker_def)
  show ?thesis
    using startClientRuntimeWatcher_started_iff [of "S4_runtime [0xAA]" S1_worker quietEnv "Some S4_status"]
      startClientRuntimeWatcher_started_iff [of "S4_runtime [0xBB]" S1_worker quietEnv "Some S4_status"]
      startClientRuntimeWatcher_started_iff [of "S4_runtime [0xAA]" S1_worker
         "quietEnv\<lparr>newNodeWatcher := Some (ErrMsg ''watch nodes failed'')\<rparr>" "Some S4_status"
         "ErrMsg ''watch nodes failed''"]
      a b n
    by (auto simp: watcherStarted_def)
qed

text \<open>
  Claim C9 as written fails when the node descriptor watcher cannot be created: all the
  conditions hold and no watcher is started.
\<close>

theorem watcher_creation_failure_counterexample:
  "watcherConditions S1_worker (S4_runtime [0xAA]) (Some S4_status)
   \<and> \<not> watcherStarted (S4_runtime [0xAA]) S1_worker
        (snd (startClientRuntimeWatcher (quietEnv\<lparr>newNodeWatcher := Some (ErrMsg ''watch nodes failed'')\<rparr>)
               (S4_runtime [0xAA]) (Some S4_status) S1_worker))"
  by (simp add: watcherConditions_def listedInPolicy_def S4_status_def S4_runtime_def
        S1_worker_def newWorker_def startClientRuntimeWatcher_def runtimeInPolicy_def
        watcherStarted_def quietEnv_def)

subsection \<open>Fetching and loading secrets\<close>

lemma fetchLoop_stop:
  "\<not> (i < ephemeralSecretCacheSize \<and> ep > 0) \<Longrightarrow> fetchLoop e rid i ep secs = Inr secs"
  by (subst fetchLoop.simps) auto

lemma fetchLoop_step:
  "i < ephemeralSecretCacheSize \<Longrightarrow> ep > 0 \<Longrightarrow>
   fetchLoop e rid i ep secs =
     (case getEphemeralSecret e rid ep of
        Inr sec \<Rightarrow> fetchLoop e rid (i + 1) (ep - 1) (secs @ [sec])
      | Inl err \<Rightarrow>
          if err = ErrNoSuchEphemeralSecret then fetchLoop e rid (i + 1) (ep - 1) secs
          else Inl (ErrWrap ''failed to fetch ephemeral secret'' err))"
  by (subst fetchLoop.simps) simp



lemma countdown_step:
  assumes "0 < m" and "0 < (ep::nat)"
  shows "map (\<lambda>k. ep - k) [0..<min m ep] = ep # map (\<lambda>k. (ep - 1) - k) [0..<min (m - 1) (ep - 1)]"
proof -
  from assms have n: "min m ep = Suc (min (m - 1) (ep - 1))"
    by (cases m; cases ep) simp_all
  have "[0..<Suc n] = 0 # map Suc [0..<n]" for n
    by (simp add: upt_conv_Cons map_Suc_upt del: upt_Suc)
  then show ?thesis
    by (simp add: n comp_def del: upt_Suc)
qed

lemma fetchLoop_collect:
  assumes "queriesAnswered e rid"
  shows "fetchLoop e rid i ep secs =
           Inr (secs @ concat (map (fetchedAt e rid)
                  (map (\<lambda>k. ep - k) [0..<min (ephemeralSecretCacheSize - i) ep])))"
  using assms
proof (induction e rid i ep secs rule: fetchLoop.induct)
  case (1 e rid i ep secs)
  show ?case
  proof (cases "i < ephemeralSecretCacheSize \<and> ep > 0")
    case False
    then have "min (ephemeralSecretCacheSize - i) ep = 0" by auto
    with False show ?thesis by (simp add: fetchLoop_stop)
  next
    case True
    then have cd: "map (\<lambda>k. ep - k) [0..<min (ephemeralSecretCacheSize - i) ep]
        = ep # map (\<lambda>k. (ep - 1) - k) [0..<min (ephemeralSecretCacheSize - (i + 1)) (ep - 1)]"
      using countdown_step [of "ephemeralSecretCacheSize - i" ep] by simp
    show ?thesis
    proof (cases "getEphemeralSecret e rid ep")
      case (Inr sec)
      from "1.IH"(2) [OF True Inr "1.prems"] True Inr show ?thesis
        by (simp add: fetchLoop_step cd fetchedAt_def)
    next
      case (Inl err)
      with "1.prems" have no: "err = ErrNoSuchEphemeralSecret"
        by (auto simp: queriesAnswered_def)
      from "1.IH"(1) [OF True Inl no "1.prems"] True Inl no show ?thesis
        by (simp add: fetchLoop_step cd fetchedAt_def)
    qed
  qed
qed

lemma loadEphemeralSecret_worker:
  "snd (loadEphemeralSecret e sec w) = w\<lparr>calls := calls w @ [loadRequest sec]\<rparr>"
proof -
  have "snd (loadEphemeralSecret e sec w)
      = snd (localCallEnclave e RPCMethodLoadEphemeralSecret (LoadArgs sec) (cborEmpty e) w)"
    by (simp add: loadEphemeralSecret_def split: prod.splits sum.splits)
  then show ?thesis by (simp add: localCallEnclave_worker loadRequest_def)
qed









lemma handleLoadSecret_fields:
  "secrets (handleLoadSecret e s) =
     (if loadSecretRetry s + 1 > loadEphemeralSecretMaxRetries then []
      else snd (loadSecrets e (secrets s) (wk s, [])))"
  "loadSecretRetry (handleLoadSecret e s) = loadSecretRetry s + 1"
  "wk (handleLoadSecret e s) = fst (loadSecrets e (secrets s) (wk s, []))"
  by (simp_all add: handleLoadSecret_def Let_def split: prod.splits)







subsection \<open>The pending secrets\<close>






















subsection \<open>Disarming the generation\<close>

lemma forwardStatus_gen:
  "genSecretRetry (forwardStatus e st rs s) = genSecretRetry s"
  "genSecretHeight (forwardStatus e st rs s) = genSecretHeight s"
  by (simp_all add: forwardStatus_def split: prod.splits option.splits)

lemma runtimeStarted_gen:
  "genSecretRetry (runtimeStarted e rs s) = genSecretRetry s"
  "genSecretHeight (runtimeStarted e rs s) = genSecretHeight s"
  by (simp_all add: runtimeStarted_def Let_def split: option.splits)

lemma handleRuntimeEvent_gen:
  "genSecretRetry (handleRuntimeEvent e hev s) = genSecretRetry s"
  "genSecretHeight (handleRuntimeEvent e hev s) = genSecretHeight s"
  by (simp_all add: handleRuntimeEvent_def runtimeStarted_gen split: host_event.splits)

lemma handleStatus_gen:
  "genSecretRetry (handleStatus e st s) = genSecretRetry s"
  "genSecretHeight (handleStatus e st s) = genSecretHeight s"
  by (simp_all add: handleStatus_def Let_def forwardStatus_gen split: option.splits)

lemma handleInitTick_gen:
  "genSecretRetry (handleInitTick e s) = genSecretRetry s"
  "genSecretHeight (handleInitTick e s) = genSecretHeight s"
  by (simp_all add: handleInitTick_def forwardStatus_gen split: option.splits)

lemma runGenTask_gen:
  "genSecretRetry (runGenTask e s) = genSecretRetry s"
  "genSecretHeight (runGenTask e s) = genSecretHeight s"
  by (simp_all add: runGenTask_def split: option.splits prod.splits)

lemma handleGenSecret_gen:
  "genSecretRetry s \<le> genSecretRetry (handleGenSecret s)"
  "genSecretHeight s = MaxInt64 \<Longrightarrow> genSecretHeight (handleGenSecret s) = MaxInt64"
  by (simp_all add: handleGenSecret_def Let_def split: option.splits)

lemma handleGenSecret_starts:
  assumes "attemptStarts s"
  shows "0 < genSecretRetry (step e EvGenSecret s)"
  using assms by (auto simp: attemptStarts_def step_def handleGenSecret_def Let_def)

lemma handleGenSecretDone_height:
  "genSecretHeight (handleGenSecretDone ok s)
     = (if ok \<and> 0 < genSecretRetry s then MaxInt64 else genSecretHeight s)"
  "genSecretRetry (handleGenSecretDone ok s) = genSecretRetry s"
  by (simp_all add: handleGenSecretDone_def Let_def)

lemma handleStop_gen:
  "genSecretRetry (handleStop e s) = genSecretRetry s"
  "genSecretHeight (handleStop e s) = genSecretHeight s"
  by (simp_all add: handleStop_def Let_def runGenTask_gen)

lemma misc_gen:
  "genSecretRetry (handleLoadSecret e s) = genSecretRetry s"
  "genSecretHeight (handleLoadSecret e s) = genSecretHeight s"
  "genSecretRetry (handleBlock h s) = genSecretRetry s"
  "genSecretHeight (handleBlock h s) = genSecretHeight s"
  "genSecretRetry (handleSecret sec s) = genSecretRetry s"
  "genSecretHeight s = MaxInt64 \<Longrightarrow> genSecretHeight (handleSecret sec s) = MaxInt64"
  "genSecretRetry (handleRuntimeRegistered e rt s) = genSecretRetry s"
  "genSecretHeight (handleRuntimeRegistered e rt s) = genSecretHeight s"
  "genSecretRetry (handleNodeUpdate e rid reset nodes s) = genSecretRetry s"
  "genSecretHeight (handleNodeUpdate e rid reset nodes s) = genSecretHeight s"
  "genSecretRetry (handleRegistered s) = genSecretRetry s"
  "genSecretHeight (handleRegistered s) = genSecretHeight s"
  by (simp_all add: handleLoadSecret_def handleBlock_def handleSecret_def
        handleRuntimeRegistered_def handleNodeUpdate_def handleRegistered_def Let_def
        split: prod.splits)

lemma step_retry_kept:
  assumes "\<not> isEpochEvent ev"
  shows "genSecretRetry s \<le> genSecretRetry (step e ev s)"
  using assms handleGenSecret_gen(1) [of s]
  by (cases ev)
     (simp_all add: step_def handleRuntimeEvent_gen handleStatus_gen handleInitTick_gen
        runGenTask_gen handleGenSecretDone_height handleStop_gen misc_gen split: option.splits)

lemma step_disarmed_kept:
  assumes "\<not> isEpochEvent ev" and "genSecretHeight s = MaxInt64"
  shows "genSecretHeight (step e ev s) = MaxInt64"
  using assms handleGenSecret_gen(2) [of s]
  by (cases ev)
     (simp_all add: step_def handleRuntimeEvent_gen handleStatus_gen handleInitTick_gen
        runGenTask_gen handleGenSecretDone_height handleStop_gen misc_gen split: option.splits)

lemma run_retry_kept:
  "noEpoch evs \<Longrightarrow> 0 < genSecretRetry s \<Longrightarrow> 0 < genSecretRetry (run evs s)"
proof (induction evs arbitrary: s)
  case Nil
  then show ?case by simp
next
  case (Cons x evs)
  obtain e ev where x: "x = (e, ev)" by (cases x)
  with Cons.prems have "\<not> isEpochEvent ev" "noEpoch evs" by (simp_all add: noEpoch_def)
  with Cons.prems(2) step_retry_kept [of ev s e] Cons.IH [of "step e ev s"] x
  show ?case by simp
qed

lemma run_disarmed_kept:
  "noEpoch evs \<Longrightarrow> genSecretHeight s = MaxInt64 \<Longrightarrow> genSecretHeight (run evs s) = MaxInt64"
proof (induction evs arbitrary: s)
  case Nil
  then show ?case by simp
next
  case (Cons x evs)
  obtain e ev where x: "x = (e, ev)" by (cases x)
  with Cons.prems have "\<not> isEpochEvent ev" "noEpoch evs" by (simp_all add: noEpoch_def)
  with Cons.prems(2) step_disarmed_kept [of ev s e] Cons.IH [of "step e ev s"] x
  show ?case by simp
qed

lemma run_append: "run (evs @ evs') s = run evs' (run evs s)"
  by (induction evs arbitrary: s) auto

lemma done_disarms:
  assumes "\<not> stopped s" and "genSecretDoneCh s = Some True" and "0 < genSecretRetry s"
  shows "genSecretHeight (step e EvGenSecretDone s) = MaxInt64"
  using assms by (simp add: step_def handleGenSecretDone_height)

lemma S3_fetch: "fetchLastEphemeralSecrets S3_env [0xC0] = Inr []"
proof -
  have qa: "queriesAnswered S3_env [0xC0]"
    by (simp add: queriesAnswered_def S3_env_def quietEnv_def)
  have f: "fetchedAt S3_env [0xC0] = (\<lambda>ep. [])"
    by (simp add: fetchedAt_def S3_env_def quietEnv_def fun_eq_iff)
  have "fetchLastEphemeralSecrets S3_env [0xC0] = fetchLoop S3_env [0xC0] 0 101 []"
    by (simp add: fetchLastEphemeralSecrets_def S3_env_def)
  also have "\<dots> = Inr ([] @ concat (map (fetchedAt S3_env [0xC0])
                 (map (\<lambda>k. 101 - k) [0..<min (ephemeralSecretCacheSize - 0) 101])))"
    by (rule fetchLoop_collect [OF qa])
  also have "\<dots> = Inr []"
    by (simp add: f)
  finally show ?thesis .
qed

lemma S3_ready_fields:
  "\<not> stopped S3_ready" "genSecretCh S3_ready" "currentStatus S3_ready = Some S1_status"
  "currentRuntimeStatus S3_ready = Some \<lparr>version = 3, capabilityTEE = None\<rparr>"
  "\<not> genSecretInProgress S3_ready" "genSecretHeight S3_ready = 1007" "epoch S3_ready = 100"
  "genSecretRetry S3_ready = 0" "genTask S3_ready = None" "runtimeID (wk S3_ready) = [0xC0]"
  "txs (wk S3_ready) = []"
  by (simp_all add: S3_ready_def step_def startLoop_def newWorker_def handleStatus_def
        setStatus_def S1_status_def S3_env_def quietEnv_def Let_def handleRuntimeEvent_def
        runtimeStarted_def S3_fetch [unfolded S3_env_def quietEnv_def] updateStatus_def localCallEnclave_def
        validateInitSignature_def handleEpoch_def randomBlockHeight_def wrap64_def truncDiv_def
        handleBlock_def forwardStatus_def recheckAllRuntimes_def MaxInt64_def)

lemmas S3_eval =
  step_def startLoop_def newWorker_def handleStatus_def setStatus_def S1_status_def S3_env_def
  S2_env_def quietEnv_def Let_def handleRuntimeEvent_def runtimeStarted_def updateStatus_def
  localCallEnclave_def validateInitSignature_def handleEpoch_def randomBlockHeight_def
  wrap64_def truncDiv_def handleBlock_def forwardStatus_def recheckAllRuntimes_def MaxInt64_def
  handleGenSecret_def runGenTask_def generateEphemeralSecret_def handleGenSecretDone_def
  setLastGeneratedSecretEpoch_def generateEphemeralSecretMaxRetries_def S6_secret_def

lemma S3_generation:
  "genSecretDoneCh (run [(S3_env, EvGenTask)] (step S3_env EvGenSecret S3_ready)) = Some True"
  "\<not> stopped (run [(S3_env, EvGenTask)] (step S3_env EvGenSecret S3_ready))"
  "txs (wk (run [(S3_env, EvGenTask)] (step S3_env EvGenSecret S3_ready))) = [S6_secret 101]"
  by (simp_all add: S3_ready_def S3_eval S3_fetch [unfolded S3_env_def quietEnv_def])

lemma S2_generation:
  "genTask (step S2_env EvGenSecret S3_ready)
     = Some (101, S1_status, \<lparr>version = 3, capabilityTEE = None\<rparr>)"
  "runtimeID (wk (step S2_env EvGenSecret S3_ready)) = [0xC0]"
  "genSecretDoneCh (step S2_env EvGenTask (step S2_env EvGenSecret S3_ready)) = Some True"
  "\<not> stopped (step S2_env EvGenTask (step S2_env EvGenSecret S3_ready))"
  "getEphemeralSecret S2_env [0xC0] 101 = Inr (S6_secret 101)"
  by (simp_all add: S3_ready_def S3_eval S3_fetch [unfolded S3_env_def quietEnv_def])

lemma S3_ready_starts: "attemptStarts S3_ready"
  by (simp add: attemptStarts_def S3_ready_fields MaxInt64_def)

lemma attempt_done_disarms:
  assumes "attemptStarts s0" and "noEpoch evs"
    and "\<not> stopped (run evs (step e EvGenSecret s0))"
    and "genSecretDoneCh (run evs (step e EvGenSecret s0)) = Some True"
  shows "genSecretHeight (step e' EvGenSecretDone (run evs (step e EvGenSecret s0))) = MaxInt64"
  using assms(3,4) run_retry_kept [OF assms(2) handleGenSecret_starts [OF assms(1)]]
  by (rule done_disarms)

lemma generateEphemeralSecret_published:
  "getEphemeralSecret e rid ep = Inr published \<Longrightarrow>
   generateEphemeralSecret e rid ep kmStatus rs w = (None, w)"
  by (simp add: generateEphemeralSecret_def)

lemma runGenTask_published:
  assumes "genTask s = Some (ep, kmStatus, rs)"
    and "getEphemeralSecret e (runtimeID (wk s)) ep = Inr published"
  shows "calls (wk (step e EvGenTask s)) = calls (wk s)"
    and "txs (wk (step e EvGenTask s)) = txs (wk s)"
    and "genSecretDoneCh (step e EvGenTask s) = Some True"
  using assms
  by (simp_all add: step_def runGenTask_def generateEphemeralSecret_published
        setLastGeneratedSecretEpoch_def)

text \<open>
  Claim C3. The handler of a completion disarms the height exactly when the completion is
  a success and the retry count is positive, and leaves it as it is otherwise. When an
  attempt is started and no epoch transition is handled before its successful completion
  is observed, the retry count is positive then, so the height is disarmed; and it stays
  disarmed through every run in which no epoch transition is handled.
\<close>

theorem generation_disarmed_after_success:
  assumes "attemptStarts s0" and "noEpoch evs" and "noEpoch evs'"
    and "\<not> stopped (run evs (step e EvGenSecret s0))"
    and "genSecretDoneCh (run evs (step e EvGenSecret s0)) = Some True"
  shows "genSecretHeight (handleGenSecretDone ok s)
           = (if ok \<and> 0 < genSecretRetry s then MaxInt64 else genSecretHeight s)
       \<and> genSecretHeight (step e' EvGenSecretDone (run evs (step e EvGenSecret s0))) = MaxInt64
       \<and> genSecretHeight (run evs' (step e' EvGenSecretDone (run evs (step e EvGenSecret s0))))
           = MaxInt64"
proof -
  have d: "genSecretHeight (step e' EvGenSecretDone (run evs (step e EvGenSecret s0))) = MaxInt64"
    using assms(1,2,4,5) by (rule attempt_done_disarms)
  have "genSecretHeight (run evs' (step e' EvGenSecretDone (run evs (step e EvGenSecret s0))))
           = MaxInt64"
    using assms(3) d by (rule run_disarmed_kept)
  with d show ?thesis by (simp add: handleGenSecretDone_height)
qed

theorem generation_disarmed_after_success_witness:
  "txs (wk (run [(S3_env, EvGenTask)] (step S3_env EvGenSecret S3_ready))) = [S6_secret 101]
   \<and> genSecretHeight S3_ready = 1007
   \<and> genSecretHeight (step S3_env EvGenSecretDone
        (run [(S3_env, EvGenTask)] (step S3_env EvGenSecret S3_ready))) = MaxInt64
   \<and> genSecretHeight (run [(S3_env, EvBlock 1008), (S3_env, EvGenSecret)]
        (step S3_env EvGenSecretDone
          (run [(S3_env, EvGenTask)] (step S3_env EvGenSecret S3_ready)))) = MaxInt64"
proof -
  have n: "noEpoch [(S3_env, EvGenTask)]" "noEpoch [(S3_env, EvBlock 1008), (S3_env, EvGenSecret)]"
    by (simp_all add: noEpoch_def)
  show ?thesis
    using generation_disarmed_after_success [OF S3_ready_starts n S3_generation(2,1),
            where e' = S3_env] S3_generation(3) S3_ready_fields(6)
    by simp
qed

text \<open>
  Claim C8, as the code has it. When the consensus query finds the secret of the target
  epoch published, \<^verbatim>\<open>generateEphemeralSecret\<close> returns no error and leaves the worker as it
  is: the enclave is not called and no transaction is submitted. In the loop, the detached
  generation then reports success; the completion disarms the height when no epoch
  transition was handled since the attempt started, and when the retry count is 0 at the
  completion (an epoch transition has picked a new height) the height is left as it is.
\<close>

theorem published_secret_skips_generation:
  assumes "getEphemeralSecret e rid ep = Inr published"
  shows "generateEphemeralSecret e rid ep kmStatus rs w = (None, w)
       \<and> (attemptStarts s0 \<and> noEpoch evs \<and> noEpoch evs2
            \<and> genTask (run evs (step e0 EvGenSecret s0)) = Some (ep, kmStatus, rs)
            \<and> runtimeID (wk (run evs (step e0 EvGenSecret s0))) = rid
            \<and> \<not> stopped (run evs2 (step e EvGenTask (run evs (step e0 EvGenSecret s0))))
            \<and> genSecretDoneCh (run evs2 (step e EvGenTask (run evs (step e0 EvGenSecret s0)))) = Some True
          \<longrightarrow> calls (wk (step e EvGenTask (run evs (step e0 EvGenSecret s0))))
                = calls (wk (run evs (step e0 EvGenSecret s0)))
            \<and> txs (wk (step e EvGenTask (run evs (step e0 EvGenSecret s0))))
                = txs (wk (run evs (step e0 EvGenSecret s0)))
            \<and> genSecretDoneCh (step e EvGenTask (run evs (step e0 EvGenSecret s0))) = Some True
            \<and> genSecretHeight (step e' EvGenSecretDone
                 (run evs2 (step e EvGenTask (run evs (step e0 EvGenSecret s0))))) = MaxInt64)
       \<and> (\<not> stopped s \<and> genSecretDoneCh s = Some True \<and> genSecretRetry s = 0
          \<longrightarrow> genSecretHeight (step e' EvGenSecretDone s) = genSecretHeight s)"
proof (intro conjI impI)
  show "generateEphemeralSecret e rid ep kmStatus rs w = (None, w)"
    using assms by (rule generateEphemeralSecret_published)
next
  assume "\<not> stopped s \<and> genSecretDoneCh s = Some True \<and> genSecretRetry s = 0"
  then show "genSecretHeight (step e' EvGenSecretDone s) = genSecretHeight s"
    by (simp add: step_def handleGenSecretDone_height)
next
  let ?s1 = "run evs (step e0 EvGenSecret s0)"
  assume h: "attemptStarts s0 \<and> noEpoch evs \<and> noEpoch evs2
            \<and> genTask ?s1 = Some (ep, kmStatus, rs)
            \<and> runtimeID (wk ?s1) = rid
            \<and> \<not> stopped (run evs2 (step e EvGenTask ?s1))
            \<and> genSecretDoneCh (run evs2 (step e EvGenTask ?s1)) = Some True"
  then have pub: "getEphemeralSecret e (runtimeID (wk ?s1)) ep = Inr published"
    using assms by simp
  from h have t: "genTask ?s1 = Some (ep, kmStatus, rs)" by simp
  show "calls (wk (step e EvGenTask ?s1)) = calls (wk ?s1)"
    using t pub by (rule runGenTask_published)
  show "txs (wk (step e EvGenTask ?s1)) = txs (wk ?s1)"
    using t pub by (rule runGenTask_published)
  show "genSecretDoneCh (step e EvGenTask ?s1) = Some True"
    using t pub by (rule runGenTask_published)
  have n: "noEpoch (evs @ (e, EvGenTask) # evs2)"
    using h by (simp add: noEpoch_def)
  have r: "run (evs @ (e, EvGenTask) # evs2) (step e0 EvGenSecret s0)
         = run evs2 (step e EvGenTask ?s1)"
    by (simp add: run_append)
  from h have a: "attemptStarts s0" by simp
  show "genSecretHeight (step e' EvGenSecretDone (run evs2 (step e EvGenTask ?s1))) = MaxInt64"
    using attempt_done_disarms [OF a n, of e0 e'] h by (simp add: r)
qed

theorem published_secret_skips_generation_witness:
  "generateEphemeralSecret S2_env [0xC0] 101 S1_status \<lparr>version = 3, capabilityTEE = None\<rparr>
       (newWorker [0xC0] {} True) = (None, newWorker [0xC0] {} True)
   \<and> calls (wk (step S2_env EvGenTask (step S2_env EvGenSecret S3_ready)))
       = calls (wk (step S2_env EvGenSecret S3_ready))
   \<and> txs (wk (step S2_env EvGenTask (step S2_env EvGenSecret S3_ready)))
       = txs (wk (step S2_env EvGenSecret S3_ready))
   \<and> genSecretHeight (step S2_env EvGenSecretDone
        (step S2_env EvGenTask (step S2_env EvGenSecret S3_ready))) = MaxInt64"
proof -
  have n: "noEpoch []" by (simp add: noEpoch_def)
  show ?thesis
    using published_secret_skips_generation [OF S2_generation(5),
            where ?s0.0 = S3_ready and evs = "[]" and ?evs2.0 = "[]" and ?e0.0 = S2_env
              and e' = S2_env and kmStatus = S1_status
              and rs = "\<lparr>version = 3, capabilityTEE = None\<rparr>"
              and w = "newWorker [0xC0] {} True"]
      S3_ready_starts n S2_generation(1-4)
    by simp
qed

lemma step_genTask: "step e EvGenTask s = runGenTask e s"
  by (simp add: step_def)

lemma runGenTask_stopped: "stopped (runGenTask e s) = stopped s"
  by (simp add: runGenTask_def split: option.splits prod.splits)

lemma step_attempt:
  assumes "attemptStarts s" and "currentStatus s = Some st" and "currentRuntimeStatus s = Some rs"
  shows "step e EvGenSecret s =
     s\<lparr>genSecretCh := False, genSecretRetry := genSecretRetry s + 1,
       genSecretHeight := (if genSecretRetry s + 1 > generateEphemeralSecretMaxRetries
                           then MaxInt64 else genSecretHeight s),
       genSecretInProgress := True, genTask := Some ((epoch s + 1) mod 2 ^ 64, st, rs)\<rparr>"
  using assms by (simp add: attemptStarts_def step_def handleGenSecret_def Let_def)

lemma step_epoch:
  assumes "\<not> stopped s" and "clientRuntimes (wk s) = []"
  shows "step e (EvEpoch ep) s =
     s\<lparr>epoch := ep, genSecretHeight := fst (randomBlockHeight e ep 90), genSecretRetry := 0\<rparr>"
  using assms by (simp add: step_def handleEpoch_def)

lemma S2_height: "fst (randomBlockHeight S2_env 101 90) = 1007"
  by (simp add: randomBlockHeight_def S2_env_def S3_env_def quietEnv_def wrap64_def truncDiv_def
        Let_def)

lemma S3_ready_more:
  "clientRuntimes (wk S3_ready) = []" "genSecretDoneCh S3_ready = None"
  by (simp_all add: S3_ready_def step_def startLoop_def newWorker_def handleStatus_def
        setStatus_def S1_status_def S3_env_def quietEnv_def Let_def handleRuntimeEvent_def
        runtimeStarted_def S3_fetch [unfolded S3_env_def quietEnv_def] updateStatus_def localCallEnclave_def
        validateInitSignature_def handleEpoch_def randomBlockHeight_def wrap64_def truncDiv_def
        handleBlock_def forwardStatus_def recheckAllRuntimes_def MaxInt64_def)

text \<open>
  Claim C8 as written fails when an epoch transition is handled between the start of the
  attempt and its completion: the attempt for epoch 101 finds the secret published and
  reports success without calling the enclave, the retry count is 0 by then, and the
  height 1007 picked by the transition stays armed.
\<close>

theorem S2_epoch_between_counterexample:
  "getEphemeralSecret S2_env [0xC0] 101 = Inr (S6_secret 101)
   \<and> genTask (run [(S2_env, EvGenSecret), (S2_env, EvEpoch 101)] S3_ready)
       = Some (101, S1_status, \<lparr>version = 3, capabilityTEE = None\<rparr>)
   \<and> genSecretDoneCh (run [(S2_env, EvGenSecret), (S2_env, EvEpoch 101), (S2_env, EvGenTask)] S3_ready)
       = Some True
   \<and> calls (wk (run [(S2_env, EvGenSecret), (S2_env, EvEpoch 101), (S2_env, EvGenTask)] S3_ready))
       = calls (wk S3_ready)
   \<and> genSecretHeight (run [(S2_env, EvGenSecret), (S2_env, EvEpoch 101), (S2_env, EvGenTask),
                            (S2_env, EvGenSecretDone)] S3_ready) = 1007
   \<and> genSecretHeight (run [(S2_env, EvGenSecret), (S2_env, EvEpoch 101), (S2_env, EvGenTask),
                            (S2_env, EvGenSecretDone)] S3_ready) \<noteq> MaxInt64"
proof -
  let ?rs = "\<lparr>version = 3, capabilityTEE = None\<rparr>"
  let ?A = "step S2_env EvGenSecret S3_ready"
  let ?B = "step S2_env (EvEpoch 101) ?A"
  let ?C = "step S2_env EvGenTask ?B"
  let ?D = "step S2_env EvGenSecretDone ?C"
  have A: "?A = S3_ready\<lparr>genSecretCh := False, genSecretRetry := 1, genSecretHeight := 1007,
                genSecretInProgress := True, genTask := Some (101, S1_status, ?rs)\<rparr>"
    by (simp add: step_attempt [OF S3_ready_starts S3_ready_fields(3,4)] S3_ready_fields
          generateEphemeralSecretMaxRetries_def)
  have B: "?B = ?A\<lparr>epoch := 101, genSecretHeight := 1007, genSecretRetry := 0\<rparr>"
    using step_epoch [of ?A S2_env 101]
    by (simp add: A S3_ready_fields S3_ready_more S2_height)
  have tB: "genTask ?B = Some (101, S1_status, ?rs)" "runtimeID (wk ?B) = [0xC0]"
    "wk ?B = wk S3_ready"
    by (simp_all add: B) (simp_all add: A S3_ready_fields)
  have pub: "getEphemeralSecret S2_env (runtimeID (wk ?B)) 101 = Inr (S6_secret 101)"
    by (simp add: tB(2) S2_generation(5))
  note C = runGenTask_published [OF tB(1) pub]
  have fB: "genSecretRetry ?B = 0" "genSecretHeight ?B = 1007" "\<not> stopped ?B"
    by (simp_all add: B) (simp add: A S3_ready_fields)
  have C': "genSecretRetry ?C = 0" "genSecretHeight ?C = 1007" "\<not> stopped ?C"
    using fB by (simp_all add: step_genTask runGenTask_gen runGenTask_stopped del: run.simps)
  have D: "genSecretHeight ?D = 1007"
    using C(3) C' by (simp add: step_def handleGenSecretDone_height)
  show ?thesis
    using S2_generation(5) tB(1) C(3) C(1) tB(3) D
    by (simp add: MaxInt64_def)
qed

subsection \<open>The access lists along the worker loop\<close>

lemma accessReachable_same:
  assumes "accessReachable w"
    and "accessList w' = accessList w \<and> accessListByRuntime w' = accessListByRuntime w"
  shows "accessReachable w'"
  using assms by (auto intro: accessReachable.others)

lemma localCallEnclave_maps:
  "accessList (snd (localCallEnclave e method args dec w)) = accessList w
   \<and> accessListByRuntime (snd (localCallEnclave e method args dec w)) = accessListByRuntime w"
  by (simp add: localCallEnclave_worker)

lemma updateStatus_maps:
  "accessList (snd (updateStatus e st rs w)) = accessList w
   \<and> accessListByRuntime (snd (updateStatus e st rs w)) = accessListByRuntime w"
proof -
  let ?args = "InitArgs \<lparr>req_checksum = status_checksum st, req_policy = status_policy st,
                 req_may_generate = mayGenerate w\<rparr>"
  obtain r w1 where c: "localCallEnclave e RPCMethodInit ?args (cborInitResponse e) w = (r, w1)"
    by (cases "localCallEnclave e RPCMethodInit ?args (cborInitResponse e) w")
  with localCallEnclave_worker [of e RPCMethodInit ?args "cborInitResponse e" w]
  have w1: "w1 = w\<lparr>calls := calls w @ [RuntimeLocalRPCCallRequest RPCMethodInit ?args]\<rparr>"
    by simp
  show ?thesis
    by (cases r) (simp_all add: updateStatus_def c w1 split: option.splits)
qed

lemma generateEphemeralSecret_maps:
  "accessList (snd (generateEphemeralSecret e rid ep kmStatus rs w)) = accessList w
   \<and> accessListByRuntime (snd (generateEphemeralSecret e rid ep kmStatus rs w)) = accessListByRuntime w"
proof -
  obtain r w1 where c: "localCallEnclave e RPCMethodGenerateEphemeralSecret (GenerateArgs ep)
                          (cborSecretResponse e) w = (r, w1)"
    by (cases "localCallEnclave e RPCMethodGenerateEphemeralSecret (GenerateArgs ep) (cborSecretResponse e) w")
  with localCallEnclave_maps [of e RPCMethodGenerateEphemeralSecret "GenerateArgs ep" "cborSecretResponse e" w]
  have w1: "accessList w1 = accessList w" "accessListByRuntime w1 = accessListByRuntime w"
    by simp_all
  show ?thesis
    by (simp add: generateEphemeralSecret_def c w1
          split: sum.splits option.splits tee_hardware.splits)
qed

lemma loadSecrets_maps:
  "accessList (fst (loadSecrets e secs (w, failed))) = accessList w
   \<and> accessListByRuntime (fst (loadSecrets e secs (w, failed))) = accessListByRuntime w"
proof (induction secs arbitrary: w failed)
  case Nil
  show ?case by simp
next
  case (Cons sec secs)
  have "accessList (snd (loadEphemeralSecret e sec w)) = accessList w"
    "accessListByRuntime (snd (loadEphemeralSecret e sec w)) = accessListByRuntime w"
    by (simp_all add: loadEphemeralSecret_worker)
  then show ?case
    by (cases "loadEphemeralSecret e sec w")
       (auto simp: Cons.IH setLastLoadedSecretEpoch_def split: option.splits)
qed

lemma crwEpochTransition_reachable:
  "accessReachable w \<Longrightarrow> accessReachable (crwEpochTransition e rid w)"
  by (auto simp: crwEpochTransition_def intro: accessReachable.updated split: sum.splits)

lemma watchersEpochTransition_reachable:
  "accessReachable w \<Longrightarrow> accessReachable (watchersEpochTransition e rids w)"
  by (induction rids arbitrary: w) (simp_all add: crwEpochTransition_reachable)

lemma startClientRuntimeWatcher_reachable:
  assumes "accessReachable w"
  shows "accessReachable (snd (startClientRuntimeWatcher e rt st w))"
proof (cases "watcherConditions w rt st \<and> newNodeWatcher e = None")
  case True
  then have "snd (startClientRuntimeWatcher e rt st w)
      = (crwEpochTransition e (rt_id rt) w)
          \<lparr>clientRuntimes := clientRuntimes w @ [rt_id rt],
           computeRuntimeCount := computeRuntimeCount w + 1\<rparr>"
    by (simp add: startClientRuntimeWatcher_start)
  with crwEpochTransition_reachable [OF assms, of e "rt_id rt"] show ?thesis
    by (auto intro: accessReachable_same)
next
  case False
  with assms show ?thesis by (simp add: startClientRuntimeWatcher_skip)
qed

lemma recheckLoop_reachable:
  "accessReachable w \<Longrightarrow> accessReachable (recheckLoop e rts st w)"
  by (induction rts arbitrary: w) (simp_all add: startClientRuntimeWatcher_reachable)

lemma recheckAllRuntimes_reachable:
  "accessReachable w \<Longrightarrow> accessReachable (snd (recheckAllRuntimes e st w))"
  by (simp add: recheckAllRuntimes_def recheckLoop_reachable split: sum.splits)

lemma updateStatus_reachable:
  assumes "accessReachable w"
  shows "accessReachable (snd (updateStatus e st rs w))"
  using assms updateStatus_maps by (rule accessReachable_same)

lemma forwardStatus_reachable:
  assumes "accessReachable (wk s)"
  shows "accessReachable (wk (forwardStatus e st rs s))"
proof (cases "updateStatus e st rs (wk s)")
  case (Pair r w1)
  with updateStatus_reachable [OF assms, of e st rs] have w1: "accessReachable w1" by simp
  show ?thesis
    by (cases r) (simp_all add: forwardStatus_def Pair w1 recheckAllRuntimes_reachable)
qed

lemma runtimeStarted_reachable:
  assumes "accessReachable (wk s)"
  shows "accessReachable (wk (runtimeStarted e rs s))"
proof (cases "currentStatus s")
  case None
  with assms show ?thesis by (simp add: runtimeStarted_def Let_def)
next
  case (Some st)
  have "accessReachable ((wk s)\<lparr>registrations := registrations (wk s) @
                    [SetAvailable (version rs) (capabilityTEE rs)]\<rparr>)"
    using assms by (auto intro: accessReachable_same)
  with assms show ?thesis
    by (simp add: runtimeStarted_def Let_def Some updateStatus_reachable)
qed

lemma handleStatus_reachable:
  assumes "accessReachable (wk s)"
  shows "accessReachable (wk (handleStatus e st s))"
proof -
  have a: "accessReachable (setStatus st (wk s))"
    using assms by (auto simp: setStatus_def intro: accessReachable_same)
  have b: "accessReachable ((setStatus st (wk s))\<lparr>hostedRuntime := True\<rparr>)"
    using a by (auto intro: accessReachable_same)
  have c: "accessReachable (wk (forwardStatus e st rs
             (s\<lparr>wk := setStatus st (wk s), currentStatus := Some st\<rparr>)))"
          "accessReachable (wk (forwardStatus e st rs
             (s\<lparr>wk := (setStatus st (wk s))\<lparr>hostedRuntime := True\<rparr>, hrtEventCh := True,
                currentStatus := Some st\<rparr>)))" for rs
    using a b by (simp_all add: forwardStatus_reachable)
  show ?thesis
    using assms a b c
    by (simp add: handleStatus_def Let_def split: option.splits)
qed

lemma runGenTask_reachable:
  assumes "accessReachable (wk s)"
  shows "accessReachable (wk (runGenTask e s))"
proof (cases "genTask s")
  case None
  with assms show ?thesis by (simp add: runGenTask_def)
next
  case (Some t)
  obtain ep kmStatus rs where t: "t = (ep, kmStatus, rs)" by (cases t)
  obtain r w1 where g: "generateEphemeralSecret e (runtimeID (wk s)) ep kmStatus rs (wk s) = (r, w1)"
    by (cases "generateEphemeralSecret e (runtimeID (wk s)) ep kmStatus rs (wk s)")
  with generateEphemeralSecret_maps [of e "runtimeID (wk s)" ep kmStatus rs "wk s"]
  have m: "accessList w1 = accessList (wk s) \<and> accessListByRuntime w1 = accessListByRuntime (wk s)"
    by simp
  then have "accessList (setLastGeneratedSecretEpoch ep w1) = accessList (wk s)
           \<and> accessListByRuntime (setLastGeneratedSecretEpoch ep w1) = accessListByRuntime (wk s)"
    by (simp add: setLastGeneratedSecretEpoch_def)
  with assms m show ?thesis
    by (cases r) (auto simp: runGenTask_def Some t g intro: accessReachable_same)
qed

lemma handleLoadSecret_reachable:
  assumes "accessReachable (wk s)"
  shows "accessReachable (wk (handleLoadSecret e s))"
  using assms loadSecrets_maps [of e "secrets s" "wk s" "[]"]
  by (auto simp: handleLoadSecret_fields intro: accessReachable_same)

lemma step_reachable:
  assumes "accessReachable (wk s)"
  shows "accessReachable (wk (step e ev s))"
proof (cases ev)
  case (EvRuntime hev)
  have "accessReachable (wk (handleRuntimeEvent e hev s))"
    using assms
    by (cases hev) (auto simp: handleRuntimeEvent_def runtimeStarted_reachable intro: accessReachable_same)
  with assms EvRuntime show ?thesis by (simp add: step_def)
next
  case (EvStatus st)
  with assms show ?thesis by (simp add: step_def handleStatus_reachable)
next
  case EvInitTick
  have "accessReachable (wk (handleInitTick e s))"
    using assms by (auto simp: handleInitTick_def forwardStatus_reachable split: option.splits)
  with assms EvInitTick show ?thesis by (simp add: step_def)
next
  case (EvRuntimeRegistered rt)
  with assms show ?thesis
    by (simp add: step_def handleRuntimeRegistered_def startClientRuntimeWatcher_reachable)
next
  case (EvEpoch ep)
  with assms show ?thesis
    by (simp add: step_def handleEpoch_def watchersEpochTransition_reachable)
next
  case (EvBlock h)
  with assms show ?thesis by (simp add: step_def handleBlock_def Let_def)
next
  case EvBlocksClosed
  with assms show ?thesis by (simp add: step_def)
next
  case (EvSecret sec)
  with assms show ?thesis by (simp add: step_def handleSecret_def Let_def)
next
  case EvGenSecret
  with assms show ?thesis
    by (simp add: step_def handleGenSecret_def Let_def split: option.splits)
next
  case EvGenTask
  with assms show ?thesis by (simp add: step_def runGenTask_reachable)
next
  case EvGenSecretDone
  with assms show ?thesis
    by (simp add: step_def handleGenSecretDone_def Let_def split: option.splits)
next
  case EvLoadSecret
  with assms show ?thesis by (simp add: step_def handleLoadSecret_reachable)
next
  case EvStop
  with assms runGenTask_reachable [OF assms, of e] show ?thesis
    by (simp add: step_def handleStop_def Let_def)
next
  case (EvNodeUpdate rid reset nodes)
  with assms show ?thesis
    by (auto simp: step_def handleNodeUpdate_def intro: accessReachable.updated)
next
  case EvRegistered
  with assms show ?thesis
    by (auto simp: step_def handleRegistered_def intro: accessReachable_same)
qed

text \<open>
  Every state of a run of the worker loop that starts with empty access lists is one of the
  states the mirror invariant is proved for.
\<close>

lemma run_reachable:
  "accessReachable (wk s) \<Longrightarrow> accessReachable (wk (run evs s))"
proof (induction evs arbitrary: s)
  case Nil
  then show ?case by simp
next
  case (Cons x evs)
  obtain e ev where "x = (e, ev)" by (cases x)
  with Cons show ?case by (simp add: step_reachable)
qed

lemma run_mirrored:
  assumes "accessList w = Map.empty" and "accessListByRuntime w = Map.empty"
  shows "mirrored (wk (run evs (startLoop w)))"
proof -
  have "accessReachable (wk (startLoop w))"
    using assms by (intro accessReachable.fresh) (simp_all add: startLoop_def)
  then have "accessReachable (wk (run evs (startLoop w)))"
    by (rule run_reachable)
  then show ?thesis
    by (intro paired_mirrored accessReachable_paired)
qed

end
